theory Spec2Isabelle
  imports Complex_Main
begin

section \<open>JavaScript numbers\<close>

text \<open>
  The route handlers compute with JavaScript numbers: \<open>parseFloat(procedure.value)\<close>,
  \<open>totalValue += ...\<close>, \<open>totalValue.toFixed(2)\<close>, \<open>Number(record.value)\<close>,
  \<open>Math.round(a / b * 100)\<close>. A JavaScript number is an IEEE 754 binary64 value. A finite
  one is modelled exactly as \<open>Finite m e\<close>, the dyadic rational \<open>m * 2 ^ e\<close>, kept in the
  normal form where \<open>m\<close> is odd (zero is \<open>Finite 0 0\<close>), so that equal numbers are equal
  terms. Every operation computes the exact rational result and rounds it to the nearest
  binary64 value, ties to the even significand, as the language standard prescribes.
  Negative zero is not distinguished from zero: every sum of the handlers starts from
  \<open>+0\<close>, and an IEEE sum that starts from \<open>+0\<close> is never \<open>-0\<close>.
\<close>

datatype jsnum = Finite int int | PosInfinity | NegInfinity | NaN

fun bitlen :: "int \<Rightarrow> nat" where
  "bitlen n = (if n \<le> 0 then 0 else Suc (bitlen (n div 2)))"

declare bitlen.simps [simp del]

definition round_half_even :: "int \<Rightarrow> int \<Rightarrow> int" where
  \<comment> \<open>the integer nearest to \<open>p / q\<close> (\<open>0 \<le> p\<close>, \<open>0 < q\<close>), a tie going to the even one\<close>
  "round_half_even p q =
     (let n = p div q; r = p mod q
      in if 2 * r < q then n
         else if q < 2 * r then n + 1
         else if even n then n else n + 1)"

definition floor_log2 :: "int \<Rightarrow> int \<Rightarrow> int" where
  \<comment> \<open>the exponent \<open>k\<close> with \<open>2 ^ k \<le> p / q < 2 ^ (k + 1)\<close>, for \<open>0 < p\<close> and \<open>0 < q\<close>\<close>
  "floor_log2 p q =
     (let b = int (bitlen p) - int (bitlen q)
      in if q * 2 ^ nat b \<le> p * 2 ^ nat (- b) then b else b - 1)"

function strip2 :: "int \<Rightarrow> int \<Rightarrow> int \<times> int" where
  "strip2 m e =
     (if m = 0 then (0, 0)
      else if even m then strip2 (m div 2) (e + 1)
      else (m, e))"
  by pat_completeness auto
termination
  by (relation "measure (\<lambda>(m, e). nat \<bar>m\<bar>)") auto

declare strip2.simps [simp del]

definition mk_double :: "bool \<Rightarrow> int \<Rightarrow> int \<Rightarrow> jsnum" where
  \<comment> \<open>the binary64 value nearest to \<open>p / q\<close> (negated when \<open>neg\<close>), for \<open>0 \<le> p\<close>, \<open>0 < q\<close>:
      53 significant bits, the unit in the last place never below \<open>2 ^ -1074\<close>
      (subnormal numbers), infinity from \<open>2 ^ 1024\<close> on\<close>
  "mk_double neg p q =
     (if p = 0 then Finite 0 0
      else
        let u = max (floor_log2 p q - 52) (- 1074);
            n = round_half_even (p * 2 ^ nat (- u)) (q * 2 ^ nat u)
        in if 2 ^ 1024 \<le> n * 2 ^ nat u then (if neg then NegInfinity else PosInfinity)
           else case strip2 n u of (m, e) \<Rightarrow> Finite (if neg then - m else m) e)"

definition js_of_nat :: "nat \<Rightarrow> jsnum" where
  \<comment> \<open>an array length or a counter as a number\<close>
  "js_of_nat n = mk_double False (int n) 1"

fun js_add :: "jsnum \<Rightarrow> jsnum \<Rightarrow> jsnum" where
  "js_add NaN _ = NaN"
| "js_add _ NaN = NaN"
| "js_add PosInfinity NegInfinity = NaN"
| "js_add NegInfinity PosInfinity = NaN"
| "js_add PosInfinity _ = PosInfinity"
| "js_add _ PosInfinity = PosInfinity"
| "js_add NegInfinity _ = NegInfinity"
| "js_add _ NegInfinity = NegInfinity"
| "js_add (Finite m1 e1) (Finite m2 e2) =
     (let e = min e1 e2;
          s = m1 * 2 ^ nat (e1 - e) + m2 * 2 ^ nat (e2 - e)
      in mk_double (s < 0) (\<bar>s\<bar> * 2 ^ nat e) (2 ^ nat (- e)))"

fun js_mul :: "jsnum \<Rightarrow> jsnum \<Rightarrow> jsnum" where
  "js_mul (Finite m1 e1) (Finite m2 e2) =
     (let s = m1 * m2; e = e1 + e2
      in mk_double (s < 0) (\<bar>s\<bar> * 2 ^ nat e) (2 ^ nat (- e)))"
| "js_mul NaN _ = NaN"
| "js_mul _ NaN = NaN"
| "js_mul (Finite m e) y =
     (if m = 0 then NaN
      else if (m < 0) = (y = NegInfinity) then PosInfinity else NegInfinity)"
| "js_mul x (Finite m e) =
     (if m = 0 then NaN
      else if (m < 0) = (x = NegInfinity) then PosInfinity else NegInfinity)"
| "js_mul x y = (if x = y then PosInfinity else NegInfinity)"

fun js_div :: "jsnum \<Rightarrow> jsnum \<Rightarrow> jsnum" where
  "js_div (Finite m1 e1) (Finite m2 e2) =
     (if m2 = 0 then (if m1 = 0 then NaN else if m1 < 0 then NegInfinity else PosInfinity)
      else mk_double ((m1 < 0) \<noteq> (m2 < 0))
             (\<bar>m1\<bar> * 2 ^ nat (e1 - e2)) (\<bar>m2\<bar> * 2 ^ nat (e2 - e1)))"
| "js_div NaN _ = NaN"
| "js_div _ NaN = NaN"
| "js_div (Finite m e) _ = Finite 0 0"
| "js_div x (Finite m e) =
     (if (m < 0) = (x = NegInfinity) then PosInfinity else NegInfinity)"
| "js_div PosInfinity _ = NaN"
| "js_div NegInfinity _ = NaN"

fun math_round :: "jsnum \<Rightarrow> jsnum" where
  \<comment> \<open>\<open>Math.round\<close>: the integer nearest to \<open>x\<close>, a tie going up: \<open>floor (x + 1/2)\<close>\<close>
  "math_round (Finite m e) =
     (let r = (2 * m * 2 ^ nat e + 2 ^ nat (- e)) div (2 * 2 ^ nat (- e))
      in mk_double (r < 0) \<bar>r\<bar> 1)"
| "math_round x = x"

section \<open>Numbers and text\<close>

text \<open>
  Strings are ASCII. \<open>parseFloat\<close> skips leading white space and reads the longest prefix
  that is a decimal literal (sign, \<open>Infinity\<close>, digits, fraction, exponent); its value is
  the literal's exact value rounded to binary64. \<open>Number\<close> applied to a string reads the
  whole trimmed string (the empty string is 0) and also accepts the \<open>0x\<close>, \<open>0o\<close> and
  \<open>0b\<close> integer literals.
\<close>

definition is_space :: "char \<Rightarrow> bool" where
  "is_space c = (of_char c \<in> {9, 10, 11, 12, 13, 32 :: nat})"

definition is_digit :: "char \<Rightarrow> bool" where
  "is_digit c = (48 \<le> (of_char c :: nat) \<and> (of_char c :: nat) \<le> 57)"

definition digit_val :: "char \<Rightarrow> int" where
  "digit_val c = int (of_char c) - 48"

definition digits_val :: "string \<Rightarrow> int" where
  "digits_val s = foldl (\<lambda>a c. 10 * a + digit_val c) 0 s"

definition parse_exponent :: "string \<Rightarrow> int \<times> string" where
  \<comment> \<open>an exponent part \<open>e\<close>, optional sign, digits; none (exponent 0, nothing consumed)
      when no digit follows\<close>
  "parse_exponent s =
     (case s of
        [] \<Rightarrow> (0, s)
      | c # t \<Rightarrow>
          if c = CHR ''e'' \<or> c = CHR ''E'' then
            (let neg = (case t of [] \<Rightarrow> False | d # _ \<Rightarrow> d = CHR ''-'');
                 t' = (case t of [] \<Rightarrow> t
                       | d # t2 \<Rightarrow> if d = CHR ''-'' \<or> d = CHR ''+'' then t2 else t);
                 ds = takeWhile is_digit t'
             in if ds = [] then (0, s)
                else (if neg then - digits_val ds else digits_val ds, dropWhile is_digit t'))
          else (0, s))"

definition parse_unsigned :: "bool \<Rightarrow> string \<Rightarrow> (jsnum \<times> string) option" where
  "parse_unsigned neg s =
     (if take 8 s = ''Infinity'' then Some (if neg then NegInfinity else PosInfinity, drop 8 s)
      else
        let ip = takeWhile is_digit s;
            r1 = dropWhile is_digit s;
            (fp, r2) = (case r1 of
                          [] \<Rightarrow> ([], r1)
                        | c # t \<Rightarrow> if c = CHR ''.''
                                   then (takeWhile is_digit t, dropWhile is_digit t)
                                   else ([], r1))
        in if ip = [] \<and> fp = [] then None
           else
             let (x, r3) = parse_exponent r2;
                 k = x - int (length fp)
             in Some (mk_double neg (digits_val (ip @ fp) * 10 ^ nat k) (10 ^ nat (- k)), r3))"

definition parse_signed :: "string \<Rightarrow> (jsnum \<times> string) option" where
  "parse_signed s =
     (case s of
        [] \<Rightarrow> None
      | c # t \<Rightarrow> if c = CHR ''-'' then parse_unsigned True t
                 else if c = CHR ''+'' then parse_unsigned False t
                 else parse_unsigned False s)"

definition parseFloat :: "string \<Rightarrow> jsnum" where
  "parseFloat s =
     (case parse_signed (dropWhile is_space s) of None \<Rightarrow> NaN | Some (v, _) \<Rightarrow> v)"




text \<open>
  \<open>x.toFixed(2)\<close>: for \<open>|x| < 10 ^ 21\<close> the integer \<open>n\<close> nearest to \<open>100 * |x|\<close> (the larger
  one at a tie), written with at least three digits and a point before the last two. From
  \<open>10 ^ 21\<close> on the result is the exponent notation of \<open>x\<close>, whose digits the language
  standard leaves in part to the implementation; the model keeps that text as
  \<open>NumberText x\<close>, the text that reads back as \<open>x\<close>.
\<close>

fun digits_of :: "nat \<Rightarrow> string" where
  "digits_of n =
     (if n < 10 then [char_of (48 + n)]
      else digits_of (n div 10) @ [char_of (48 + n mod 10)])"

declare digits_of.simps [simp del]

definition fixed2_text :: "nat \<Rightarrow> string" where
  "fixed2_text n =
     (let m = digits_of n;
          z = replicate (3 - length m) CHR ''0'' @ m
      in take (length z - 2) z @ ''.'' @ drop (length z - 2) z)"

datatype fixed_text = Text string | NumberText jsnum

fun toFixed2 :: "jsnum \<Rightarrow> fixed_text" where
  "toFixed2 (Finite m e) =
     (if 10 ^ 21 * 2 ^ nat (- e) \<le> \<bar>m\<bar> * 2 ^ nat e then NumberText (Finite m e)
      else
        let n = (2 * (100 * \<bar>m\<bar>) * 2 ^ nat e + 2 ^ nat (- e)) div (2 * 2 ^ nat (- e))
        in Text ((if m < 0 then ''-'' else []) @ fixed2_text (nat n)))"
| "toFixed2 PosInfinity = Text ''Infinity''"
| "toFixed2 NegInfinity = Text ''-Infinity''"
| "toFixed2 NaN = Text ''NaN''"

fun parseFloat_text :: "fixed_text \<Rightarrow> jsnum" where
  "parseFloat_text (Text s) = parseFloat s"
| "parseFloat_text (NumberText x) = x"

section \<open>The relational store\<close>

text \<open>
  The tables of \<open>shared/schema.ts\<close> that the appointment, client, procedure and dashboard
  routes touch, each a list of rows in insertion order. Columns the modelled routes never
  read (passwords, phone of a user, creation stamps) are left out. A date is a valid
  JavaScript \<open>Date\<close>, the milliseconds since the epoch. A \<open>numeric\<close> column holds the
  JavaScript value the code wrote into it: the text of a price, or the number that
  \<open>createAppointment\<close> makes with \<open>parseFloat\<close>; PostgreSQL hands both back as decimal
  text denoting the same number.

  \<open>serial\<close> keys come from one counter per table. The foreign keys declared with
  \<open>references\<close> and the \<open>notNull\<close> columns are enforced: a statement that breaks one is
  rejected and changes no row. The journal lists, in order, the statements the database
  executed.
\<close>

type_synonym date = int

datatype jsval = JStr string | JNum jsnum


datatype 'a nullable = Undefined | Null | Value 'a

record user =
  u_id :: nat
  u_name :: string
  u_role :: string
  u_companyId :: "nat option"

record client =
  c_id :: nat
  c_name :: string
  c_phone :: string
  c_notes :: "string option"
  c_companyId :: nat

record procedure =
  p_id :: nat
  p_name :: string
  p_value :: string
  p_companyId :: nat

record appointment =
  a_id :: nat
  a_clientId :: nat
  a_collaboratorId :: nat
  a_procedureId :: nat
  a_date :: date
  a_status :: string
  a_companyId :: nat
  a_value :: jsnum
  a_notes :: "string option"

record appointmentProcedure =
  ap_id :: nat
  ap_appointmentId :: nat
  ap_procedureId :: nat

record financialRecord =
  fr_id :: nat
  fr_type :: string
  fr_category :: string
  fr_description :: string
  fr_value :: jsval
  fr_date :: date
  fr_companyId :: nat
  fr_appointmentId :: "nat option"

datatype tbl = Clients | Procedures | Appointments | AppointmentProcedures | FinancialRecords

datatype col = Id | AppointmentId

datatype statement = Insert tbl nat | Update tbl col nat | Delete tbl col nat

record db =
  users :: "user list"
  clients :: "client list"
  procedures :: "procedure list"
  appointments :: "appointment list"
  appointmentProcedures :: "appointmentProcedure list"
  financialRecords :: "financialRecord list"
  appointments_seq :: nat
  appointmentProcedures_seq :: nat
  financialRecords_seq :: nat
  journal :: "statement list"

datatype storage_error = NotFound tbl nat | ForeignKeyViolation tbl | NotNullViolation tbl

definition executed :: "statement \<Rightarrow> db \<Rightarrow> db" where
  "executed st s = s\<lparr>journal := journal s @ [st]\<rparr>"

subsection \<open>Clients and procedures\<close>

definition getClient :: "db \<Rightarrow> nat \<Rightarrow> client option" where
  "getClient s i = find (\<lambda>c. c_id c = i) (clients s)"





definition getProcedure :: "db \<Rightarrow> nat \<Rightarrow> procedure option" where
  "getProcedure s i = find (\<lambda>p. p_id p = i) (procedures s)"




subsection \<open>Appointments\<close>

text \<open>
  \<open>getAppointmentsByDateRange\<close> and \<open>getFinancialRecordsByDateRange\<close> call \<open>where\<close> a
  second time on the query they built. The query builder is a library outside this
  repository; whether the second condition is added to the first or takes its place is a
  parameter of the model.
\<close>

datatype where_mode = Conjoin | Replace

definition rewhere :: "where_mode \<Rightarrow> bool \<Rightarrow> bool \<Rightarrow> bool" where
  "rewhere md first second = (case md of Conjoin \<Rightarrow> first \<and> second | Replace \<Rightarrow> second)"

definition getAppointment :: "db \<Rightarrow> nat \<Rightarrow> appointment option" where
  "getAppointment s i = find (\<lambda>a. a_id a = i) (appointments s)"

definition getAppointmentsByDateRange ::
  "where_mode \<Rightarrow> db \<Rightarrow> nat option \<Rightarrow> date \<Rightarrow> date \<Rightarrow> nat option \<Rightarrow> appointment list" where
  \<comment> \<open>\<open>if (collaboratorId)\<close>: neither \<open>undefined\<close> nor 0; the company of the session
      user may be \<open>null\<close>, which equals no row's company\<close>
  "getAppointmentsByDateRange md s companyId startDate endDate collaboratorId =
     (let query = (\<lambda>a. Some (a_companyId a) = companyId \<and>
                        startDate \<le> a_date a \<and> a_date a \<le> endDate);
          query' = (case collaboratorId of
                      None \<Rightarrow> query
                    | Some c \<Rightarrow> if c \<noteq> 0
                               then (\<lambda>a. rewhere md (query a) (a_collaboratorId a = c))
                               else query)
      in sort_key a_date (filter query' (appointments s)))"

record insertAppointment =
  ia_clientId :: nat
  ia_collaboratorId :: nat
  ia_procedureId :: "nat option"
  ia_date :: date
  ia_status :: "string option"
  ia_companyId :: nat
  ia_value :: fixed_text
  ia_notes :: "string nullable"

definition status_or_scheduled :: "string option \<Rightarrow> string" where
  \<comment> \<open>\<open>status || 'scheduled'\<close>: \<open>undefined\<close> and the empty string are falsy\<close>
  "status_or_scheduled st =
     (case st of None \<Rightarrow> ''scheduled'' | Some t \<Rightarrow> if t = [] then ''scheduled'' else t)"

definition appointment_refs_ok :: "db \<Rightarrow> insertAppointment \<Rightarrow> bool" where
  \<comment> \<open>the foreign keys of a row of \<open>appointments\<close>\<close>
  "appointment_refs_ok s d =
     (ia_clientId d \<in> c_id ` set (clients s) \<and>
      ia_collaboratorId d \<in> u_id ` set (users s) \<and>
      (case ia_procedureId d of None \<Rightarrow> True | Some p \<Rightarrow> p \<in> p_id ` set (procedures s)))"

definition createAppointment ::
  "insertAppointment \<Rightarrow> db \<Rightarrow> (storage_error + appointment) \<times> db" where
  "createAppointment d s =
     (let i = appointments_seq s;
          s0 = s\<lparr>appointments_seq := i + 1\<rparr>
      in case ia_procedureId d of
           None \<Rightarrow> (Inl (NotNullViolation Appointments), s0)
         | Some pid \<Rightarrow>
             if \<not> appointment_refs_ok s d then (Inl (ForeignKeyViolation Appointments), s0)
             else
               let row = \<lparr>a_id = i, a_clientId = ia_clientId d,
                          a_collaboratorId = ia_collaboratorId d, a_procedureId = pid,
                          a_date = ia_date d, a_status = status_or_scheduled (ia_status d),
                          a_companyId = ia_companyId d,
                          a_value = parseFloat_text (ia_value d),
                          a_notes = (case ia_notes d of Value t \<Rightarrow> Some t | _ \<Rightarrow> None)\<rparr>
               in (Inr row,
                   executed (Insert Appointments i)
                     (s0\<lparr>appointments := appointments s @ [row]\<rparr>)))"

definition set_appointment :: "insertAppointment \<Rightarrow> appointment \<Rightarrow> appointment" where
  \<comment> \<open>the \<open>set\<close> of \<open>updateAppointment\<close>; a key that is \<open>undefined\<close> is skipped\<close>
  "set_appointment d a =
     a\<lparr>a_clientId := ia_clientId d,
       a_collaboratorId := ia_collaboratorId d,
       a_procedureId := (case ia_procedureId d of None \<Rightarrow> a_procedureId a | Some p \<Rightarrow> p),
       a_date := ia_date d,
       a_status := status_or_scheduled (ia_status d),
       a_companyId := ia_companyId d,
       a_value := parseFloat_text (ia_value d),
       a_notes := (case ia_notes d of
                     Undefined \<Rightarrow> a_notes a | Null \<Rightarrow> None | Value t \<Rightarrow> Some t)\<rparr>"

definition updateAppointment ::
  "nat \<Rightarrow> insertAppointment \<Rightarrow> db \<Rightarrow> (storage_error + appointment) \<times> db" where
  "updateAppointment i d s =
     (if getAppointment s i \<noteq> None \<and> \<not> appointment_refs_ok s d
      then (Inl (ForeignKeyViolation Appointments), s)
      else
        let s' = executed (Update Appointments Id i)
                   (s\<lparr>appointments :=
                        map (\<lambda>a. if a_id a = i then set_appointment d a else a)
                          (appointments s)\<rparr>)
        in case getAppointment s' i of
             None \<Rightarrow> (Inl (NotFound Appointments i), s')
           | Some a \<Rightarrow> (Inr a, s'))"

definition getAppointmentProcedures :: "db \<Rightarrow> nat \<Rightarrow> procedure list" where
  "getAppointmentProcedures s appointmentId =
     concat (map (\<lambda>l. filter (\<lambda>p. p_id p = ap_procedureId l) (procedures s))
               (filter (\<lambda>l. ap_appointmentId l = appointmentId) (appointmentProcedures s)))"

definition addProcedureToAppointment ::
  "nat \<Rightarrow> nat \<Rightarrow> db \<Rightarrow> (storage_error + appointmentProcedure) \<times> db" where
  "addProcedureToAppointment appointmentId procedureId s =
     (let i = appointmentProcedures_seq s;
          s0 = s\<lparr>appointmentProcedures_seq := i + 1\<rparr>
      in if appointmentId \<in> a_id ` set (appointments s) \<and>
            procedureId \<in> p_id ` set (procedures s)
         then
           let row = \<lparr>ap_id = i, ap_appointmentId = appointmentId,
                      ap_procedureId = procedureId\<rparr>
           in (Inr row,
               executed (Insert AppointmentProcedures i)
                 (s0\<lparr>appointmentProcedures := appointmentProcedures s @ [row]\<rparr>))
         else (Inl (ForeignKeyViolation AppointmentProcedures), s0))"

definition removeAllProceduresFromAppointment :: "nat \<Rightarrow> db \<Rightarrow> db" where
  "removeAllProceduresFromAppointment appointmentId s =
     executed (Delete AppointmentProcedures AppointmentId appointmentId)
       (s\<lparr>appointmentProcedures :=
            filter (\<lambda>l. ap_appointmentId l \<noteq> appointmentId) (appointmentProcedures s)\<rparr>)"

definition deleteAppointment :: "nat \<Rightarrow> db \<Rightarrow> (storage_error + unit) \<times> db" where
  "deleteAppointment i s =
     (let s1 = removeAllProceduresFromAppointment i s
      in if getAppointment s1 i \<noteq> None \<and>
            (\<exists>r \<in> set (financialRecords s1). fr_appointmentId r = Some i)
         then (Inl (ForeignKeyViolation Appointments), s1)
         else
           let s2 = executed (Delete Appointments Id i)
                      (s1\<lparr>appointments := filter (\<lambda>a. a_id a \<noteq> i) (appointments s1)\<rparr>)
           in if getAppointment s1 i = None then (Inl (NotFound Appointments i), s2)
              else (Inr (), s2))"

subsection \<open>Financial records\<close>

definition getFinancialRecord :: "db \<Rightarrow> nat \<Rightarrow> financialRecord option" where
  "getFinancialRecord s i = find (\<lambda>r. fr_id r = i) (financialRecords s)"


record insertFinancialRecord =
  if_type :: string
  if_category :: string
  if_description :: string
  if_value :: jsval
  if_date :: date
  if_companyId :: nat
  if_appointmentId :: "nat option"

definition createFinancialRecord ::
  "insertFinancialRecord \<Rightarrow> db \<Rightarrow> (storage_error + financialRecord) \<times> db" where
  "createFinancialRecord d s =
     (let i = financialRecords_seq s;
          s0 = s\<lparr>financialRecords_seq := i + 1\<rparr>
      in if (case if_appointmentId d of None \<Rightarrow> True
             | Some a \<Rightarrow> a \<in> a_id ` set (appointments s))
         then
           let row = \<lparr>fr_id = i, fr_type = if_type d, fr_category = if_category d,
                      fr_description = if_description d, fr_value = if_value d,
                      fr_date = if_date d, fr_companyId = if_companyId d,
                      fr_appointmentId = if_appointmentId d\<rparr>
           in (Inr row,
               executed (Insert FinancialRecords i)
                 (s0\<lparr>financialRecords := financialRecords s @ [row]\<rparr>))
         else (Inl (ForeignKeyViolation FinancialRecords), s0))"

text \<open>\<open>Partial<InsertFinancialRecord>\<close>: every key may be missing, and \<open>set\<close> skips those.\<close>

record financialUpdates =
  fu_type :: "string option"
  fu_category :: "string option"
  fu_description :: "string option"
  fu_value :: "jsval option"
  fu_date :: "date option"
  fu_companyId :: "nat option"
  fu_appointmentId :: "nat nullable"

definition set_financial :: "financialUpdates \<Rightarrow> financialRecord \<Rightarrow> financialRecord" where
  "set_financial updates r =
     r\<lparr>fr_type := (case fu_type updates of None \<Rightarrow> fr_type r | Some v \<Rightarrow> v),
       fr_category := (case fu_category updates of None \<Rightarrow> fr_category r | Some v \<Rightarrow> v),
       fr_description := (case fu_description updates of None \<Rightarrow> fr_description r | Some v \<Rightarrow> v),
       fr_value := (case fu_value updates of None \<Rightarrow> fr_value r | Some v \<Rightarrow> v),
       fr_date := (case fu_date updates of None \<Rightarrow> fr_date r | Some v \<Rightarrow> v),
       fr_companyId := (case fu_companyId updates of None \<Rightarrow> fr_companyId r | Some v \<Rightarrow> v),
       fr_appointmentId := (case fu_appointmentId updates of
                              Undefined \<Rightarrow> fr_appointmentId r | Null \<Rightarrow> None
                            | Value a \<Rightarrow> Some a)\<rparr>"

definition financial_refs_ok :: "db \<Rightarrow> financialUpdates \<Rightarrow> bool" where
  "financial_refs_ok s updates =
     (case fu_appointmentId updates of
        Value a \<Rightarrow> a \<in> a_id ` set (appointments s)
      | _ \<Rightarrow> True)"

definition updateFinancialRecord ::
  "nat \<Rightarrow> financialUpdates \<Rightarrow> db \<Rightarrow> (storage_error + financialRecord) \<times> db" where
  "updateFinancialRecord i updates s =
     (if getFinancialRecord s i \<noteq> None \<and> \<not> financial_refs_ok s updates
      then (Inl (ForeignKeyViolation FinancialRecords), s)
      else
        let s' = executed (Update FinancialRecords Id i)
                   (s\<lparr>financialRecords :=
                        map (\<lambda>r. if fr_id r = i then set_financial updates r else r)
                          (financialRecords s)\<rparr>)
        in case getFinancialRecord s' i of
             None \<Rightarrow> (Inl (NotFound FinancialRecords i), s')
           | Some r \<Rightarrow> (Inr r, s'))"

definition deleteFinancialRecord :: "nat \<Rightarrow> db \<Rightarrow> (storage_error + unit) \<times> db" where
  "deleteFinancialRecord i s =
     (let s' = executed (Delete FinancialRecords Id i)
                 (s\<lparr>financialRecords := filter (\<lambda>r. fr_id r \<noteq> i) (financialRecords s)\<rparr>)
      in if getFinancialRecord s i = None then (Inl (NotFound FinancialRecords i), s')
         else (Inr (), s'))"

definition updateFinancialRecordByAppointment ::
  "nat \<Rightarrow> financialUpdates \<Rightarrow> db \<Rightarrow> (storage_error + unit) \<times> db" where
  "updateFinancialRecordByAppointment appointmentId updates s =
     (if (\<exists>r \<in> set (financialRecords s). fr_appointmentId r = Some appointmentId) \<and>
         \<not> financial_refs_ok s updates
      then (Inl (ForeignKeyViolation FinancialRecords), s)
      else
        (Inr (),
         executed (Update FinancialRecords AppointmentId appointmentId)
           (s\<lparr>financialRecords :=
                map (\<lambda>r. if fr_appointmentId r = Some appointmentId
                          then set_financial updates r else r)
                  (financialRecords s)\<rparr>)))"

definition deleteFinancialRecordByAppointment ::
  "nat \<Rightarrow> db \<Rightarrow> (storage_error + unit) \<times> db" where
  "deleteFinancialRecordByAppointment appointmentId s =
     (Inr (),
      executed (Delete FinancialRecords AppointmentId appointmentId)
        (s\<lparr>financialRecords :=
             filter (\<lambda>r. fr_appointmentId r \<noteq> Some appointmentId) (financialRecords s)\<rparr>))"

section \<open>Route handlers\<close>

text \<open>
  A handler takes the session user (\<open>None\<close> when the request is not authenticated), the
  route parameter already read by \<open>parseInt\<close>, the request body and the store; it returns
  the response and the store afterwards. The texts of the JSON messages are constructors:
  \<open>AccessDenied\<close> is "Access denied" / "Acesso negado", \<open>ProcedureRequired\<close> the 400 text for
  a missing or empty \<open>procedureIds\<close>, \<open>InvalidProcedure\<close> the 400 text for a procedure that
  is missing or of another company, \<open>ValidationFailed\<close> the 400 text of a rejected body,
  \<open>CreateFailed\<close>, \<open>UpdateFailed\<close> and \<open>DeleteFailed\<close> the 500 texts of the appointment
  routes, \<open>ServerError\<close> the generic 500 text.

  A body field is \<open>Missing\<close>, \<open>JsonNull\<close>, \<open>Given v\<close> with a value of the column's type, or
  \<open>WrongType\<close>. The insert schemas derived from the tables require \<open>Given\<close> for a
  \<open>notNull\<close> column without default, also accept \<open>Missing\<close> for a column with a default,
  and \<open>Missing\<close> and \<open>JsonNull\<close> for a nullable column.
\<close>

datatype message =
  Unauthorized | AdminRequired | ClientNotFound | ProcedureNotFound | AppointmentNotFound
  | AccessDenied | ProcedureRequired | InvalidProcedure | ValidationFailed
  | CreateFailed | UpdateFailed | DeleteFailed | ServerError

record stats =
  st_appointments :: nat
  st_clients :: nat
  st_revenue :: jsnum
  st_occupation :: jsnum
  st_clientsServed :: nat
  st_weeklyAppointments :: nat

datatype body =
  Message message
  | Empty
  | ClientJson client
  | ProcedureJson procedure
  | ProceduresJson "procedure list"
  | AppointmentJson "appointment option"
  | StatsJson stats

record response =
  status :: nat
  body :: body

definition reply :: "nat \<Rightarrow> body \<Rightarrow> response" where
  "reply c b = \<lparr>status = c, body = b\<rparr>"

datatype 'a field = Missing | JsonNull | Given 'a | WrongType

fun nullable_of :: "'a field \<Rightarrow> 'a nullable option" where
  \<comment> \<open>a nullable, optional column; \<open>None\<close> when the schema rejects the field\<close>
  "nullable_of Missing = Some Undefined"
| "nullable_of JsonNull = Some Null"
| "nullable_of (Given v) = Some (Value v)"
| "nullable_of WrongType = None"

subsection \<open>Appointment procedures, clients, procedures\<close>

definition getAppointmentProceduresHandler :: "user option \<Rightarrow> nat \<Rightarrow> db \<Rightarrow> response \<times> db" where
  "getAppointmentProceduresHandler ru appointmentId s =
     (case ru of
        None \<Rightarrow> (reply 401 (Message Unauthorized), s)
      | Some u \<Rightarrow>
          (case getAppointment s appointmentId of
             None \<Rightarrow> (reply 404 (Message AppointmentNotFound), s)
           | Some existingAppointment \<Rightarrow>
               if Some (a_companyId existingAppointment) \<noteq> u_companyId u
               then (reply 403 (Message AccessDenied), s)
               else (reply 200 (ProceduresJson (getAppointmentProcedures s appointmentId)), s)))"










subsection \<open>Creating, updating and deleting an appointment\<close>

text \<open>
  \<open>b_procedureIds\<close> is \<open>None\<close> when the body has no array \<open>procedureIds\<close>; an element is
  what \<open>parseInt\<close> reads from it, \<open>None\<close> for \<open>NaN\<close>, which the database refuses as a key.
  \<open>b_date\<close> is \<open>new Date(restData.date)\<close>, \<open>None\<close> for an invalid date.
\<close>

record appointment_body =
  b_procedureIds :: "nat option list option"
  b_clientId :: "nat field"
  b_collaboratorId :: "nat field"
  b_date :: "date option"
  b_status :: "string field"
  b_notes :: "string field"

datatype resolve_failure = QueryThrew | InvalidId

fun resolveProcedures ::
  "db \<Rightarrow> nat option \<Rightarrow> nat option list \<Rightarrow> jsnum \<Rightarrow> procedure list
     \<Rightarrow> resolve_failure + jsnum \<times> procedure list" where
  \<comment> \<open>the loop over \<open>procedureIds\<close>, with \<open>totalValue\<close> and \<open>validProcedures\<close>; it is left
      by the 400 reply for an invalid procedure, or by the throw of the query\<close>
  "resolveProcedures s companyId [] totalValue validProcedures =
     Inr (totalValue, validProcedures)"
| "resolveProcedures s companyId (procedureId # rest) totalValue validProcedures =
     (case procedureId of
        None \<Rightarrow> Inl QueryThrew
      | Some i \<Rightarrow>
          (case getProcedure s i of
             None \<Rightarrow> Inl InvalidId
           | Some procedure \<Rightarrow>
               if Some (p_companyId procedure) \<noteq> companyId
               then Inl InvalidId
               else resolveProcedures s companyId rest
                      (js_add totalValue (parseFloat (p_value procedure)))
                      (validProcedures @ [procedure])))"

definition parseAppointment ::
  "nat option \<Rightarrow> appointment_body \<Rightarrow> fixed_text \<Rightarrow> nat \<Rightarrow> insertAppointment option" where
  \<comment> \<open>\<open>insertAppointmentSchema.parse(preprocessedData)\<close>, \<open>None\<close> when it throws; the
      transform turns a falsy \<open>procedureId\<close> into \<open>undefined\<close>\<close>
  "parseAppointment companyId b value procedureId =
     (case (b_clientId b, b_collaboratorId b, b_date b, companyId, nullable_of (b_notes b)) of
        (Given cl, Given co, Some d, Some cid, Some notes) \<Rightarrow>
          (case b_status b of
             Missing \<Rightarrow>
               Some \<lparr>ia_clientId = cl, ia_collaboratorId = co,
                     ia_procedureId = (if procedureId = 0 then None else Some procedureId),
                     ia_date = d, ia_status = None, ia_companyId = cid, ia_value = value,
                     ia_notes = notes\<rparr>
           | Given st \<Rightarrow>
               Some \<lparr>ia_clientId = cl, ia_collaboratorId = co,
                     ia_procedureId = (if procedureId = 0 then None else Some procedureId),
                     ia_date = d, ia_status = Some st, ia_companyId = cid, ia_value = value,
                     ia_notes = notes\<rparr>
           | _ \<Rightarrow> None)
      | _ \<Rightarrow> None)"

fun addProcedures :: "nat \<Rightarrow> procedure list \<Rightarrow> db \<Rightarrow> (storage_error + unit) \<times> db" where
  \<comment> \<open>the loop over \<open>validProcedures\<close>; a throw leaves the loop\<close>
  "addProcedures appointmentId [] s = (Inr (), s)"
| "addProcedures appointmentId (procedure # rest) s =
     (case addProcedureToAppointment appointmentId (p_id procedure) s of
        (Inl e, s') \<Rightarrow> (Inl e, s')
      | (Inr _, s') \<Rightarrow> addProcedures appointmentId rest s')"

definition preprocess ::
  "message \<Rightarrow> nat option \<Rightarrow> appointment_body \<Rightarrow> db
     \<Rightarrow> response + insertAppointment \<times> procedure list" where
  \<comment> \<open>the part the POST and the PUT handler share word for word: the check of
      \<open>procedureIds\<close>, the loop, \<open>preprocessedData\<close> and its parse. \<open>thrown\<close> is the 500
      message of the handler's outer \<open>catch\<close>.\<close>
  "preprocess thrown companyId b s =
     (case b_procedureIds b of
        None \<Rightarrow> Inl (reply 400 (Message ProcedureRequired))
      | Some [] \<Rightarrow> Inl (reply 400 (Message ProcedureRequired))
      | Some procedureIds \<Rightarrow>
          (case resolveProcedures s companyId procedureIds (Finite 0 0) [] of
             Inl InvalidId \<Rightarrow> Inl (reply 400 (Message InvalidProcedure))
           | Inl QueryThrew \<Rightarrow> Inl (reply 500 (Message thrown))
           | Inr (totalValue, []) \<Rightarrow> Inl (reply 500 (Message thrown))
           | Inr (totalValue, first # others) \<Rightarrow>
               (case parseAppointment companyId b (toFixed2 totalValue) (p_id first) of
                  None \<Rightarrow> Inl (reply 400 (Message ValidationFailed))
                | Some appointmentData \<Rightarrow> Inr (appointmentData, first # others))))"

definition createWorkflow ::
  "insertAppointment \<Rightarrow> procedure list \<Rightarrow> db \<Rightarrow> (storage_error + appointment) \<times> db" where
  \<comment> \<open>the second \<open>try\<close> block of the POST handler: the appointment, its procedure rows,
      its financial record\<close>
  "createWorkflow appointmentData validProcedures s =
     (case createAppointment appointmentData s of
        (Inl e, s1) \<Rightarrow> (Inl e, s1)
      | (Inr appointment, s1) \<Rightarrow>
          (case addProcedures (a_id appointment) validProcedures s1 of
             (Inl e, s2) \<Rightarrow> (Inl e, s2)
           | (Inr _, s2) \<Rightarrow>
               (case createFinancialRecord
                       \<lparr>if_type = ''income'', if_category = ''appointment'',
                        if_description = ''Agendamento #'' @ digits_of (a_id appointment),
                        if_value = JNum (a_value appointment),
                        if_date = a_date appointment,
                        if_companyId = ia_companyId appointmentData,
                        if_appointmentId = Some (a_id appointment)\<rparr> s2 of
                  (Inl e, s3) \<Rightarrow> (Inl e, s3)
                | (Inr _, s3) \<Rightarrow> (Inr appointment, s3))))"

definition postAppointmentHandler ::
  "user option \<Rightarrow> appointment_body \<Rightarrow> db \<Rightarrow> response \<times> db" where
  "postAppointmentHandler ru b s =
     (case ru of
        None \<Rightarrow> (reply 401 (Message Unauthorized), s)
      | Some u \<Rightarrow>
          (case preprocess ServerError (u_companyId u) b s of
             Inl r \<Rightarrow> (r, s)
           | Inr (appointmentData, validProcedures) \<Rightarrow>
               (case createWorkflow appointmentData validProcedures s of
                  (Inl e, s') \<Rightarrow> (reply 500 (Message CreateFailed), s')
                | (Inr appointment, s') \<Rightarrow>
                    (reply 201 (AppointmentJson (Some appointment)), s'))))"

definition resync :: "jsnum \<Rightarrow> date \<Rightarrow> financialUpdates" where
  \<comment> \<open>\<open>{ value: updatedAppointment.value, date: new Date() }\<close>\<close>
  "resync v now =
     \<lparr>fu_type = None, fu_category = None, fu_description = None, fu_value = Some (JNum v),
      fu_date = Some now, fu_companyId = None, fu_appointmentId = Undefined\<rparr>"

definition updateWorkflow ::
  "date \<Rightarrow> nat \<Rightarrow> appointment \<Rightarrow> insertAppointment \<Rightarrow> procedure list \<Rightarrow> db
     \<Rightarrow> (storage_error + unit) \<times> db" where
  \<comment> \<open>the statements of the PUT handler's inner \<open>try\<close> block after the parse; \<open>now\<close> is
      the \<open>new Date()\<close> written into the financial record\<close>
  "updateWorkflow now appointmentId existingAppointment appointmentData validProcedures s =
     (case updateAppointment appointmentId appointmentData s of
        (Inl e, s1) \<Rightarrow> (Inl e, s1)
      | (Inr updatedAppointment, s1) \<Rightarrow>
          (case addProcedures appointmentId validProcedures
                  (removeAllProceduresFromAppointment appointmentId s1) of
             (Inl e, s3) \<Rightarrow> (Inl e, s3)
           | (Inr _, s3) \<Rightarrow>
               if a_status updatedAppointment = ''completed'' \<and>
                  a_status existingAppointment \<noteq> ''completed''
               then updateFinancialRecordByAppointment appointmentId
                      (resync (a_value updatedAppointment) now) s3
               else (Inr (), s3)))"

definition putAppointmentHandler ::
  "date \<Rightarrow> user option \<Rightarrow> nat \<Rightarrow> appointment_body \<Rightarrow> db \<Rightarrow> response \<times> db" where
  "putAppointmentHandler now ru appointmentId b s =
     (case ru of
        None \<Rightarrow> (reply 401 (Message Unauthorized), s)
      | Some u \<Rightarrow>
          (case getAppointment s appointmentId of
             None \<Rightarrow> (reply 404 (Message AppointmentNotFound), s)
           | Some existingAppointment \<Rightarrow>
               if Some (a_companyId existingAppointment) \<noteq> u_companyId u
               then (reply 403 (Message AccessDenied), s)
               else
                 (case preprocess UpdateFailed (u_companyId u) b s of
                    Inl r \<Rightarrow> (r, s)
                  | Inr (appointmentData, validProcedures) \<Rightarrow>
                      (case updateWorkflow now appointmentId existingAppointment
                              appointmentData validProcedures s of
                         (Inl e, s') \<Rightarrow> (reply 400 (Message ValidationFailed), s')
                       | (Inr _, s') \<Rightarrow>
                           (reply 200 (AppointmentJson (getAppointment s' appointmentId)),
                            s')))))"

definition deleteAppointmentHandler :: "user option \<Rightarrow> nat \<Rightarrow> db \<Rightarrow> response \<times> db" where
  "deleteAppointmentHandler ru appointmentId s =
     (case ru of
        None \<Rightarrow> (reply 401 (Message Unauthorized), s)
      | Some u \<Rightarrow>
          (case getAppointment s appointmentId of
             None \<Rightarrow> (reply 404 (Message AppointmentNotFound), s)
           | Some existingAppointment \<Rightarrow>
               if Some (a_companyId existingAppointment) \<noteq> u_companyId u
               then (reply 403 (Message AccessDenied), s)
               else
                 (case deleteFinancialRecordByAppointment appointmentId s of
                    (Inl e, s1) \<Rightarrow> (reply 500 (Message DeleteFailed), s1)
                  | (Inr _, s1) \<Rightarrow>
                      (case deleteAppointment appointmentId s1 of
                         (Inl e, s2) \<Rightarrow> (reply 500 (Message DeleteFailed), s2)
                       | (Inr _, s2) \<Rightarrow> (reply 204 Empty, s2)))))"

subsection \<open>Dashboard statistics\<close>

text \<open>
  The local-time calendar functions of \<open>Date\<close> depend on the time zone of the server and
  are parameters: \<open>startOfDay\<close> is \<open>setHours(0, 0, 0, 0)\<close>, \<open>endOfDay\<close> is
  \<open>setHours(23, 59, 59, 999)\<close>, \<open>addDays d n\<close> is \<open>setDate(getDate() + n)\<close>,
  \<open>startOfMonth\<close> and \<open>startOfYear\<close> are the first instant of the month and of the year.
  The handler reads the clock three times: \<open>now\<close>, and later \<open>nextWeekStart\<close> and the
  start value of \<open>nextWeekEnd\<close>.
\<close>

record calendar =
  startOfDay :: "date \<Rightarrow> date"
  endOfDay :: "date \<Rightarrow> date"
  addDays :: "date \<Rightarrow> int \<Rightarrow> date"
  startOfMonth :: "date \<Rightarrow> date"
  startOfYear :: "date \<Rightarrow> date"

definition dateRange :: "calendar \<Rightarrow> string option \<Rightarrow> date \<Rightarrow> date \<times> date" where
  \<comment> \<open>the \<open>switch\<close> on \<open>req.query.timeFilter || 'day'\<close>\<close>
  "dateRange cal timeFilter now =
     (let tf = (case timeFilter of None \<Rightarrow> ''day'' | Some t \<Rightarrow> if t = [] then ''day'' else t)
      in if tf = ''week'' then (startOfDay cal (addDays cal now (- 7)), endOfDay cal now)
         else if tf = ''month'' then (startOfMonth cal now, endOfDay cal now)
         else if tf = ''year'' then (startOfYear cal now, endOfDay cal now)
         else (startOfDay cal now, endOfDay cal now))"

definition completed :: "appointment list \<Rightarrow> appointment list" where
  "completed as = filter (\<lambda>a. a_status a = ''completed'') as"

definition occupationRate :: "appointment list \<Rightarrow> jsnum" where
  \<comment> \<open>\<open>Math.round((completed.length / (appointments.length || 1)) * 100)\<close>\<close>
  "occupationRate as =
     math_round
       (js_mul
          (js_div (js_of_nat (length (completed as)))
             (js_of_nat (if length as = 0 then 1 else length as)))
          (js_of_nat 100))"


definition periodAppointments ::
  "where_mode \<Rightarrow> calendar \<Rightarrow> date \<Rightarrow> user \<Rightarrow> string option \<Rightarrow> db \<Rightarrow> appointment list" where
  \<comment> \<open>the appointments of the selected period: all for an admin, else the requester's\<close>
  "periodAppointments md cal now u timeFilter s =
     (let (startDate, endDate) = dateRange cal timeFilter now
      in getAppointmentsByDateRange md s (u_companyId u) startDate endDate
           (if u_role u \<noteq> ''admin'' then Some (u_id u) else None))"



section \<open>An example store\<close>

text \<open>
  Two companies. Company 1 has the admin \<open>ana\<close>, the collaborator \<open>bia\<close>, one client, three
  procedures priced 19.90, 35.50 and 10.00, and appointment 1 with the first two
  procedures (55.40). Company 2 has the admin \<open>caio\<close>, one client, one procedure and the
  completed appointment 2.
\<close>

definition ana :: user where
  "ana = \<lparr>u_id = 1, u_name = ''Ana'', u_role = ''admin'', u_companyId = Some 1\<rparr>"

definition bia :: user where
  "bia = \<lparr>u_id = 2, u_name = ''Bia'', u_role = ''collaborator'', u_companyId = Some 1\<rparr>"

definition caio :: user where
  "caio = \<lparr>u_id = 3, u_name = ''Caio'', u_role = ''admin'', u_companyId = Some 2\<rparr>"

definition corte :: procedure where
  "corte = \<lparr>p_id = 1, p_name = ''Corte'', p_value = ''19.90'', p_companyId = 1\<rparr>"

definition barba :: procedure where
  "barba = \<lparr>p_id = 2, p_name = ''Barba'', p_value = ''35.50'', p_companyId = 1\<rparr>"

definition sobrancelha :: procedure where
  "sobrancelha = \<lparr>p_id = 3, p_name = ''Sobrancelha'', p_value = ''10.00'', p_companyId = 1\<rparr>"

definition tintura :: procedure where
  "tintura = \<lparr>p_id = 4, p_name = ''Tintura'', p_value = ''50.00'', p_companyId = 2\<rparr>"

definition dora :: client where
  "dora = \<lparr>c_id = 1, c_name = ''Dora'', c_phone = ''5511'', c_notes = None, c_companyId = 1\<rparr>"

definition enzo :: client where
  "enzo = \<lparr>c_id = 2, c_name = ''Enzo'', c_phone = ''5521'', c_notes = None, c_companyId = 2\<rparr>"

definition appointment1 :: appointment where
  "appointment1 =
     \<lparr>a_id = 1, a_clientId = 1, a_collaboratorId = 2, a_procedureId = 1, a_date = 1000,
      a_status = ''scheduled'', a_companyId = 1,
      a_value = Finite 7796856854885171 (- 47), a_notes = None\<rparr>"

definition appointment2 :: appointment where
  "appointment2 =
     \<lparr>a_id = 2, a_clientId = 2, a_collaboratorId = 3, a_procedureId = 4, a_date = 2000,
      a_status = ''completed'', a_companyId = 2, a_value = Finite 25 1, a_notes = None\<rparr>"

definition income1 :: financialRecord where
  "income1 =
     \<lparr>fr_id = 1, fr_type = ''income'', fr_category = ''appointment'',
      fr_description = ''Agendamento #1'', fr_value = JNum (Finite 7796856854885171 (- 47)),
      fr_date = 1000, fr_companyId = 1, fr_appointmentId = Some 1\<rparr>"

definition income2 :: financialRecord where
  "income2 =
     \<lparr>fr_id = 2, fr_type = ''income'', fr_category = ''appointment'',
      fr_description = ''Agendamento #2'', fr_value = JNum (Finite 25 1),
      fr_date = 2000, fr_companyId = 2, fr_appointmentId = Some 2\<rparr>"

definition salon :: db where
  "salon =
     \<lparr>users = [ana, bia, caio],
      clients = [dora, enzo],
      procedures = [corte, barba, sobrancelha, tintura],
      appointments = [appointment1, appointment2],
      appointmentProcedures =
        [\<lparr>ap_id = 1, ap_appointmentId = 1, ap_procedureId = 1\<rparr>,
         \<lparr>ap_id = 2, ap_appointmentId = 1, ap_procedureId = 2\<rparr>,
         \<lparr>ap_id = 3, ap_appointmentId = 2, ap_procedureId = 4\<rparr>],
      financialRecords = [income1, income2],
      appointments_seq = 3,
      appointmentProcedures_seq = 4,
      financialRecords_seq = 3,
      journal = []\<rparr>"

definition request :: appointment_body where
  \<comment> \<open>a well-formed body; the examples change single fields\<close>
  "request =
     \<lparr>b_procedureIds = Some [Some 3], b_clientId = Given 1, b_collaboratorId = Given 2,
      b_date = Some 5000, b_status = Missing, b_notes = Missing\<rparr>"

definition twice_billed :: db where
  \<comment> \<open>the example store with a second financial record for appointment 1\<close>
  "twice_billed = salon\<lparr>financialRecords := [income1, income2, income1\<lparr>fr_id := 3\<rparr>]\<rparr>"

definition busy_salon :: db where
  \<comment> \<open>the example store with a completed appointment 3 of company 1, collaborator \<open>ana\<close>\<close>
  "busy_salon =
     salon\<lparr>appointments := appointments salon @
        [appointment1\<lparr>a_id := 3, a_collaboratorId := 1, a_status := ''completed''\<rparr>]\<rparr>"

definition plain_calendar :: calendar where
  \<comment> \<open>a calendar for the examples: days of 86,400,000 ms counted from the epoch, months
      of 30 days, years of 365 days\<close>
  "plain_calendar =
     \<lparr>startOfDay = (\<lambda>d. d - d mod 86400000),
      endOfDay = (\<lambda>d. d - d mod 86400000 + 86399999),
      addDays = (\<lambda>d n. d + n * 86400000),
      startOfMonth = (\<lambda>d. d - d mod 2592000000),
      startOfYear = (\<lambda>d. d - d mod 31536000000)\<rparr>"

section \<open>Basic facts about the store\<close>

lemma find_filter_neq [simp]: "find (\<lambda>x. f x = i) (filter (\<lambda>x. f x \<noteq> i) xs) = None"
  by (induction xs) auto

lemma executed_fields [simp]:
  "users (executed st s) = users s"
  "clients (executed st s) = clients s"
  "procedures (executed st s) = procedures s"
  "appointments (executed st s) = appointments s"
  "appointmentProcedures (executed st s) = appointmentProcedures s"
  "financialRecords (executed st s) = financialRecords s"
  "appointments_seq (executed st s) = appointments_seq s"
  "appointmentProcedures_seq (executed st s) = appointmentProcedures_seq s"
  "financialRecords_seq (executed st s) = financialRecords_seq s"
  "journal (executed st s) = journal s @ [st]"
  by (simp_all add: executed_def)

lemma find_Some_set: "find P xs = Some x \<Longrightarrow> x \<in> set xs \<and> P x"
  by (induction xs) (auto split: if_splits)

lemma status_reply [simp]: "status (reply c b) = c" "body (reply c b) = b"
  by (simp_all add: reply_def)

lemma addProcedureToAppointment_frame [simp]:
  "users (snd (addProcedureToAppointment i p s)) = users s"
  "clients (snd (addProcedureToAppointment i p s)) = clients s"
  "procedures (snd (addProcedureToAppointment i p s)) = procedures s"
  "appointments (snd (addProcedureToAppointment i p s)) = appointments s"
  "financialRecords (snd (addProcedureToAppointment i p s)) = financialRecords s"
  "appointments_seq (snd (addProcedureToAppointment i p s)) = appointments_seq s"
  "financialRecords_seq (snd (addProcedureToAppointment i p s)) = financialRecords_seq s"
  by (simp_all add: addProcedureToAppointment_def Let_def)

lemma addProcedures_preserves:
  assumes "\<And>j p t. f (snd (addProcedureToAppointment j p t)) = f t"
  shows "f (snd (addProcedures i ps s)) = f s"
proof (induction ps arbitrary: s)
  case Nil
  show ?case by simp
next
  case (Cons p ps)
  show ?case
  proof (cases "addProcedureToAppointment i (p_id p) s")
    case (Pair r s')
    have "f s' = f s"
      using assms [of i "p_id p" s] Pair by simp
    then show ?thesis
      using Pair Cons.IH [of s'] by (cases r) simp_all
  qed
qed

lemma addProcedures_frame [simp]:
  "users (snd (addProcedures i ps s)) = users s"
  "clients (snd (addProcedures i ps s)) = clients s"
  "procedures (snd (addProcedures i ps s)) = procedures s"
  "appointments (snd (addProcedures i ps s)) = appointments s"
  "financialRecords (snd (addProcedures i ps s)) = financialRecords s"
  "appointments_seq (snd (addProcedures i ps s)) = appointments_seq s"
  "financialRecords_seq (snd (addProcedures i ps s)) = financialRecords_seq s"
  by (rule addProcedures_preserves, simp)+

lemma addProcedures_rows:
  assumes "i \<in> a_id ` set (appointments s)"
    and "\<forall>p \<in> set ps. p_id p \<in> p_id ` set (procedures s)"
  shows "fst (addProcedures i ps s) = Inr () \<and>
         appointmentProcedures (snd (addProcedures i ps s)) =
           appointmentProcedures s @
           map (\<lambda>(k, p). \<lparr>ap_id = k, ap_appointmentId = i, ap_procedureId = p_id p\<rparr>)
             (enumerate (appointmentProcedures_seq s) ps) \<and>
         journal (snd (addProcedures i ps s)) =
           journal s @ map (\<lambda>(k, p). Insert AppointmentProcedures k)
             (enumerate (appointmentProcedures_seq s) ps)"
  using assms
proof (induction ps arbitrary: s)
  case Nil
  show ?case by simp
next
  case (Cons p ps)
  let ?n = "appointmentProcedures_seq s"
  let ?row = "\<lparr>ap_id = ?n, ap_appointmentId = i, ap_procedureId = p_id p\<rparr>"
  let ?s' = "executed (Insert AppointmentProcedures ?n)
               (s\<lparr>appointmentProcedures_seq := ?n + 1,
                  appointmentProcedures := appointmentProcedures s @ [?row]\<rparr>)"
  have one: "addProcedureToAppointment i (p_id p) s = (Inr ?row, ?s')"
    using Cons.prems by (simp add: addProcedureToAppointment_def Let_def)
  have ih: "fst (addProcedures i ps ?s') = Inr () \<and>
         appointmentProcedures (snd (addProcedures i ps ?s')) =
           appointmentProcedures ?s' @
           map (\<lambda>(k, p). \<lparr>ap_id = k, ap_appointmentId = i, ap_procedureId = p_id p\<rparr>)
             (enumerate (appointmentProcedures_seq ?s') ps) \<and>
         journal (snd (addProcedures i ps ?s')) =
           journal ?s' @ map (\<lambda>(k, p). Insert AppointmentProcedures k)
             (enumerate (appointmentProcedures_seq ?s') ps)"
    using Cons.prems by (intro Cons.IH) simp_all
  show ?case
    using ih by (simp add: one)
qed

section \<open>Tenant isolation of the routes by key\<close>


lemma salon_lookups:
  "getAppointment salon 1 = Some appointment1"
  "getAppointment salon 2 = Some appointment2"
  "getClient salon 1 = Some dora"
  "getClient salon 2 = Some enzo"
  "getProcedure salon 1 = Some corte"
  "getProcedure salon 2 = Some barba"
  "getProcedure salon 3 = Some sobrancelha"
  "getProcedure salon 4 = Some tintura"
  by (simp_all add: getAppointment_def getClient_def getProcedure_def salon_def
      appointment1_def appointment2_def dora_def enzo_def corte_def barba_def
      sobrancelha_def tintura_def)


section \<open>Deleting an appointment\<close>

text \<open>
  C5. For an appointment that exists and belongs to the company of the user, the DELETE
  handler answers 204 after exactly three statements, in this order: the delete of the
  financial records that reference the appointment, the delete of its procedure rows, the
  delete of the appointment row. Afterwards none of these rows is left, the appointment is
  not found, and a request for it is answered with 404.
\<close>

theorem delete_removes_children_then_parent:
  assumes "getAppointment s i = Some a" and "Some (a_companyId a) = u_companyId u"
  shows "\<exists>s'. deleteAppointmentHandler (Some u) i s = (reply 204 Empty, s') \<and>
     journal s' = journal s @ [Delete FinancialRecords AppointmentId i,
                               Delete AppointmentProcedures AppointmentId i,
                               Delete Appointments Id i] \<and>
     financialRecords s' = filter (\<lambda>r. fr_appointmentId r \<noteq> Some i) (financialRecords s) \<and>
     appointmentProcedures s' = filter (\<lambda>l. ap_appointmentId l \<noteq> i) (appointmentProcedures s) \<and>
     appointments s' = filter (\<lambda>x. a_id x \<noteq> i) (appointments s) \<and>
     getAppointment s' i = None \<and>
     getAppointmentProceduresHandler (Some u) i s' = (reply 404 (Message AppointmentNotFound), s')"
  using assms
  by (simp add: deleteAppointmentHandler_def deleteFinancialRecordByAppointment_def
      deleteAppointment_def removeAllProceduresFromAppointment_def getAppointment_def
      getAppointmentProceduresHandler_def Let_def)

theorem delete_removes_children_then_parent_witness:
  "getAppointment salon 1 = Some appointment1 \<and>
   Some (a_companyId appointment1) = u_companyId bia \<and>
   (\<exists>s'. deleteAppointmentHandler (Some bia) 1 salon = (reply 204 Empty, s') \<and>
      journal s' = [Delete FinancialRecords AppointmentId 1,
                    Delete AppointmentProcedures AppointmentId 1,
                    Delete Appointments Id 1] \<and>
      financialRecords s' = [income2] \<and>
      appointmentProcedures s' = [\<lparr>ap_id = 3, ap_appointmentId = 2, ap_procedureId = 4\<rparr>] \<and>
      appointments s' = [appointment2] \<and>
      getAppointment s' 1 = None \<and>
      getAppointmentProceduresHandler (Some bia) 1 s' =
        (reply 404 (Message AppointmentNotFound), s'))"
proof -
  have h1: "getAppointment salon 1 = Some appointment1"
    by (rule salon_lookups)
  have h2: "Some (a_companyId appointment1) = u_companyId bia"
    by (simp add: appointment1_def bia_def)
  have rows: "filter (\<lambda>r. fr_appointmentId r \<noteq> Some 1) (financialRecords salon) = [income2]"
    "filter (\<lambda>l. ap_appointmentId l \<noteq> 1) (appointmentProcedures salon) =
       [\<lparr>ap_id = 3, ap_appointmentId = 2, ap_procedureId = 4\<rparr>]"
    "filter (\<lambda>x. a_id x \<noteq> 1) (appointments salon) = [appointment2]"
    "journal salon = []"
    by (simp_all add: salon_def income1_def income2_def appointment1_def appointment2_def)
  show ?thesis
    using delete_removes_children_then_parent [OF h1 h2] h1 h2 rows by simp
qed

section \<open>Financial records by appointment and by key\<close>

text \<open>
  C10. \<open>updateFinancialRecordByAppointment\<close> changes every financial record that references
  the appointment and \<open>deleteFinancialRecordByAppointment\<close> removes every one, however many
  there are; when no record references the appointment (\<open>a'\<close> below) both return normally
  and leave the table as it was. \<open>updateFinancialRecord\<close> and \<open>deleteFinancialRecord\<close>, by
  key, throw when no row has the key. (An update that sets \<open>appointmentId\<close> to a key that
  does not exist is rejected by the foreign key when it matches a row; the update of the
  PUT handler sets \<open>value\<close> and \<open>date\<close> only.)
\<close>

theorem by_appointment_variants_never_miss:
  "(financial_refs_ok s updates \<longrightarrow>
      fst (updateFinancialRecordByAppointment a updates s) = Inr () \<and>
      financialRecords (snd (updateFinancialRecordByAppointment a updates s)) =
        map (\<lambda>r. if fr_appointmentId r = Some a then set_financial updates r else r)
          (financialRecords s)) \<and>
   fst (deleteFinancialRecordByAppointment a s) = Inr () \<and>
   financialRecords (snd (deleteFinancialRecordByAppointment a s)) =
     filter (\<lambda>r. fr_appointmentId r \<noteq> Some a) (financialRecords s) \<and>
   ((\<forall>r \<in> set (financialRecords s). fr_appointmentId r \<noteq> Some a') \<longrightarrow>
      fst (updateFinancialRecordByAppointment a' updates s) = Inr () \<and>
      financialRecords (snd (updateFinancialRecordByAppointment a' updates s)) = financialRecords s \<and>
      fst (deleteFinancialRecordByAppointment a' s) = Inr () \<and>
      financialRecords (snd (deleteFinancialRecordByAppointment a' s)) = financialRecords s) \<and>
   (getFinancialRecord s i = None \<longrightarrow>
      fst (updateFinancialRecord i updates s) = Inl (NotFound FinancialRecords i) \<and>
      financialRecords (snd (updateFinancialRecord i updates s)) = financialRecords s \<and>
      fst (deleteFinancialRecord i s) = Inl (NotFound FinancialRecords i) \<and>
      financialRecords (snd (deleteFinancialRecord i s)) = financialRecords s)"
proof -
  have none: "getFinancialRecord s i = None \<Longrightarrow> \<forall>r \<in> set (financialRecords s). fr_id r \<noteq> i"
    by (auto simp: getFinancialRecord_def find_None_iff)
  have map_id: "\<And>f P xs. \<forall>x \<in> set xs. \<not> P x \<Longrightarrow> map (\<lambda>x. if P x then f x else x) xs = xs"
    by (simp add: map_idI)
  have filter_id: "\<And>P xs. \<forall>x \<in> set xs. P x \<Longrightarrow> filter P xs = xs"
    by simp
  show ?thesis
    by (auto simp: updateFinancialRecordByAppointment_def deleteFinancialRecordByAppointment_def
        updateFinancialRecord_def deleteFinancialRecord_def Let_def map_id
        getFinancialRecord_def find_None_iff map_idI split: option.splits dest: find_Some_set)
qed

theorem by_appointment_variants_never_miss_witness:
  "financial_refs_ok twice_billed (resync (Finite 25 1) 9000) \<and>
   fst (updateFinancialRecordByAppointment 1 (resync (Finite 25 1) 9000) twice_billed) = Inr () \<and>
   financialRecords
     (snd (updateFinancialRecordByAppointment 1 (resync (Finite 25 1) 9000) twice_billed)) =
     [income1\<lparr>fr_value := JNum (Finite 25 1), fr_date := 9000\<rparr>, income2,
      income1\<lparr>fr_id := 3, fr_value := JNum (Finite 25 1), fr_date := 9000\<rparr>] \<and>
   fst (deleteFinancialRecordByAppointment 1 twice_billed) = Inr () \<and>
   financialRecords (snd (deleteFinancialRecordByAppointment 1 twice_billed)) = [income2] \<and>
   list_all (\<lambda>r. fr_appointmentId r \<noteq> Some 7) (financialRecords twice_billed) \<and>
   fst (updateFinancialRecordByAppointment 7 (resync (Finite 25 1) 9000) twice_billed) = Inr () \<and>
   financialRecords
     (snd (updateFinancialRecordByAppointment 7 (resync (Finite 25 1) 9000) twice_billed)) =
     financialRecords twice_billed \<and>
   fst (deleteFinancialRecordByAppointment 7 twice_billed) = Inr () \<and>
   financialRecords (snd (deleteFinancialRecordByAppointment 7 twice_billed)) =
     financialRecords twice_billed \<and>
   getFinancialRecord twice_billed 9 = None \<and>
   fst (updateFinancialRecord 9 (resync (Finite 25 1) 9000) twice_billed) =
     Inl (NotFound FinancialRecords 9) \<and>
   fst (deleteFinancialRecord 9 twice_billed) = Inl (NotFound FinancialRecords 9)"
proof -
  have h1: "financial_refs_ok twice_billed (resync (Finite 25 1) 9000)"
    by (simp add: financial_refs_ok_def resync_def)
  have h2: "\<forall>r \<in> set (financialRecords twice_billed). fr_appointmentId r \<noteq> Some 7"
    by (simp add: twice_billed_def salon_def income1_def income2_def)
  have h3: "getFinancialRecord twice_billed 9 = None"
    by (simp add: getFinancialRecord_def twice_billed_def salon_def income1_def income2_def)
  have rows:
    "map (\<lambda>r. if fr_appointmentId r = Some 1 then set_financial (resync (Finite 25 1) 9000) r else r)
       (financialRecords twice_billed) =
     [income1\<lparr>fr_value := JNum (Finite 25 1), fr_date := 9000\<rparr>, income2,
      income1\<lparr>fr_id := 3, fr_value := JNum (Finite 25 1), fr_date := 9000\<rparr>]"
    "filter (\<lambda>r. fr_appointmentId r \<noteq> Some 1) (financialRecords twice_billed) = [income2]"
    by (simp_all add: twice_billed_def salon_def income1_def income2_def set_financial_def
        resync_def)
  show ?thesis
    using by_appointment_variants_never_miss
      [of twice_billed "resync (Finite 25 1) 9000" 1 7 9] h1 h2 h3 rows
    by (simp add: list_all_iff)
qed

section \<open>Facts about the update of an appointment\<close>

lemma find_map_update:
  assumes "\<And>a. f (g a) = f a"
  shows "find (\<lambda>a. f a = i) (map (\<lambda>a. if f a = i then g a else a) xs) =
         map_option g (find (\<lambda>a. f a = i) xs)"
  by (induction xs) (simp_all add: assms)

lemma resolveProcedures_Inr:
  "resolveProcedures s cid pids t v = Inr (t', v') \<Longrightarrow>
     \<exists>ps. v' = v @ ps \<and> pids = map (\<lambda>p. Some (p_id p)) ps \<and>
          (\<forall>p \<in> set ps. getProcedure s (p_id p) = Some p \<and> Some (p_companyId p) = cid) \<and>
          t' = foldl (\<lambda>t p. js_add t (parseFloat (p_value p))) t ps"
proof (induction pids arbitrary: t v)
  case Nil
  then show ?case by simp
next
  case (Cons pid pids)
  from Cons.prems obtain i p where pid: "pid = Some i" and p: "getProcedure s i = Some p"
    and c: "Some (p_companyId p) = cid"
    and rest: "resolveProcedures s cid pids (js_add t (parseFloat (p_value p))) (v @ [p]) = Inr (t', v')"
    by (auto split: option.splits if_splits)
  from Cons.IH [OF rest] obtain ps where ps: "v' = (v @ [p]) @ ps"
    "pids = map (\<lambda>p. Some (p_id p)) ps"
    "\<forall>p \<in> set ps. getProcedure s (p_id p) = Some p \<and> Some (p_companyId p) = cid"
    "t' = foldl (\<lambda>t p. js_add t (parseFloat (p_value p))) (js_add t (parseFloat (p_value p))) ps"
    by blast
  have pi: "p_id p = i"
    using p by (auto simp: getProcedure_def dest: find_Some_set)
  show ?case
    by (rule exI [of _ "p # ps"]) (use ps pid p c pi in simp)
qed

lemma resolveProcedures_valid:
  assumes "\<forall>p \<in> set ps. getProcedure s (p_id p) = Some p \<and> Some (p_companyId p) = cid"
  shows "resolveProcedures s cid (map (\<lambda>p. Some (p_id p)) ps) t v =
         Inr (foldl (\<lambda>t p. js_add t (parseFloat (p_value p))) t ps, v @ ps)"
  using assms by (induction ps arbitrary: t v) simp_all

lemma preprocess_simps:
  "b_procedureIds b = None \<Longrightarrow> preprocess m cid b s = Inl (reply 400 (Message ProcedureRequired))"
  "b_procedureIds b = Some [] \<Longrightarrow> preprocess m cid b s = Inl (reply 400 (Message ProcedureRequired))"
  "b_procedureIds b = Some (x # xs) \<Longrightarrow> preprocess m cid b s =
      (case resolveProcedures s cid (x # xs) (Finite 0 0) [] of
             Inl InvalidId \<Rightarrow> Inl (reply 400 (Message InvalidProcedure))
           | Inl QueryThrew \<Rightarrow> Inl (reply 500 (Message m))
           | Inr (totalValue, []) \<Rightarrow> Inl (reply 500 (Message m))
           | Inr (totalValue, first # others) \<Rightarrow>
               (case parseAppointment cid b (toFixed2 totalValue) (p_id first) of
                  None \<Rightarrow> Inl (reply 400 (Message ValidationFailed))
                | Some appointmentData \<Rightarrow> Inr (appointmentData, first # others)))"
  unfolding preprocess_def by simp_all

lemma preprocess_ids:
  assumes "preprocess m cid b s = Inr (d, vs)"
  shows "\<exists>x xs. b_procedureIds b = Some (x # xs)"
proof (cases "b_procedureIds b")
    case None
    then show ?thesis using assms preprocess_simps(1) [of b m cid s] by simp
  next
    case (Some pids)
    show ?thesis
    proof (cases pids)
      case Nil
      then show ?thesis using Some assms preprocess_simps(2) [of b m cid s] by simp
    next
      case (Cons y ys)
      then show ?thesis using Some by simp
    qed
  qed

lemma preprocess_resolved:
  assumes "preprocess m cid b s = Inr (d, vs)" and pids: "b_procedureIds b = Some (x # xs)"
  shows "\<exists>tot vs0. resolveProcedures s cid (x # xs) (Finite 0 0) [] = Inr (tot, vs0)"
proof (cases "resolveProcedures s cid (x # xs) (Finite 0 0) []")
    case (Inl e)
    then show ?thesis using assms(1) unfolding preprocess_simps(3) [OF pids, of m cid s] by (cases e) simp_all
  next
    case (Inr tv)
    then show ?thesis by (cases tv) simp
  qed


lemma preprocess_parsed:
  assumes "preprocess m cid b s = Inr (d, vs)" and pids: "b_procedureIds b = Some (x # xs)"
    and res: "resolveProcedures s cid (x # xs) (Finite 0 0) [] = Inr (tot, vs0)"
  shows "\<exists>first others. vs0 = first # others \<and> vs = vs0 \<and>
           parseAppointment cid b (toFixed2 tot) (p_id first) = Some d"
proof (cases vs0)
  case Nil
  then show ?thesis
    using assms(1) unfolding preprocess_simps(3) [OF pids, of m cid s] res by simp
next
  case (Cons first others)
  show ?thesis
  proof (cases "parseAppointment cid b (toFixed2 tot) (p_id first)")
    case None
    then show ?thesis
      using assms(1) unfolding preprocess_simps(3) [OF pids, of m cid s] res Cons by simp
  next
    case (Some d')
    then show ?thesis
      using assms(1) unfolding preprocess_simps(3) [OF pids, of m cid s] res Cons by auto
  qed
qed

lemma preprocess_Inr:
  assumes "preprocess m cid b s = Inr (d, vs)"
  obtains ps tot first others where
    "b_procedureIds b = Some (map (\<lambda>p. Some (p_id p)) ps)" "vs = ps" "ps = first # others"
    "\<forall>p \<in> set ps. getProcedure s (p_id p) = Some p \<and> Some (p_companyId p) = cid"
    "tot = foldl (\<lambda>t p. js_add t (parseFloat (p_value p))) (Finite 0 0) ps"
    "parseAppointment cid b (toFixed2 tot) (p_id first) = Some d"
proof -
  from preprocess_ids [OF assms] obtain x xs where pids: "b_procedureIds b = Some (x # xs)"
    by (elim exE)
  from preprocess_resolved [OF assms pids] obtain tot vs0 where
    res: "resolveProcedures s cid (x # xs) (Finite 0 0) [] = Inr (tot, vs0)"
    by (elim exE)
  from preprocess_parsed [OF assms pids res] obtain first others where
    vs: "vs0 = first # others" "vs = vs0"
    and par: "parseAppointment cid b (toFixed2 tot) (p_id first) = Some d"
    by (elim exE conjE)
  from resolveProcedures_Inr [OF res] obtain ps where
    all: "vs0 = [] @ ps \<and> x # xs = map (\<lambda>p. Some (p_id p)) ps \<and>
    (\<forall>p \<in> set ps. getProcedure s (p_id p) = Some p \<and> Some (p_companyId p) = cid) \<and>
    tot = foldl (\<lambda>t p. js_add t (parseFloat (p_value p))) (Finite 0 0) ps" ..
  then have ps: "vs0 = [] @ ps" "x # xs = map (\<lambda>p. Some (p_id p)) ps"
    "\<forall>p \<in> set ps. getProcedure s (p_id p) = Some p \<and> Some (p_companyId p) = cid"
    "tot = foldl (\<lambda>t p. js_add t (parseFloat (p_value p))) (Finite 0 0) ps"
    by simp_all
  show thesis
  proof (rule that [of ps first others tot])
    show "b_procedureIds b = Some (map (\<lambda>p. Some (p_id p)) ps)"
      using pids ps(2) by simp
    show "vs = ps" using vs ps(1) by simp
    show "ps = first # others" using vs ps(1) by simp
    show "\<forall>p \<in> set ps. getProcedure s (p_id p) = Some p \<and> Some (p_companyId p) = cid"
      by (rule ps(3))
    show "tot = foldl (\<lambda>t p. js_add t (parseFloat (p_value p))) (Finite 0 0) ps"
      by (rule ps(4))
    show "parseAppointment cid b (toFixed2 tot) (p_id first) = Some d"
      by (rule par)
  qed
qed

lemma parseAppointment_Some:
  assumes "parseAppointment cid b v pid = Some d"
  shows "ia_value d = v"
    and "ia_status d = (case b_status b of Given st \<Rightarrow> Some st | _ \<Rightarrow> None)"
    and "b_status b = Missing \<or> (\<exists>st. b_status b = Given st)"
    and "Some (ia_companyId d) = cid"
    and "b_clientId b = Given (ia_clientId d)"
    and "b_collaboratorId b = Given (ia_collaboratorId d)"
    and "b_date b = Some (ia_date d)"
    and "ia_procedureId d = (if pid = 0 then None else Some pid)"
  using assms
  by (auto simp: parseAppointment_def split: field.splits option.splits)



lemma set_appointment_fields [simp]:
  "a_id (set_appointment d a) = a_id a"
  "a_status (set_appointment d a) = status_or_scheduled (ia_status d)"
  "a_value (set_appointment d a) = parseFloat_text (ia_value d)"
  by (simp_all add: set_appointment_def)

lemma getAppointment_updated:
  "getAppointment (executed st (s\<lparr>appointments :=
       map (\<lambda>a. if a_id a = i then set_appointment d a else a) (appointments s)\<rparr>)) i =
   map_option (set_appointment d) (getAppointment s i)"
  unfolding getAppointment_def
  by (simp add: find_map_update [where f = a_id and g = "set_appointment d"])

lemma getAppointment_id: "getAppointment s i = Some a \<Longrightarrow> a_id a = i \<and> a \<in> set (appointments s)"
  by (auto simp: getAppointment_def dest: find_Some_set)

lemma updateAppointment_unfold:
  assumes "\<not> (getAppointment s i \<noteq> None \<and> \<not> appointment_refs_ok s d)"
  shows "updateAppointment i d s =
        (case getAppointment (executed (Update Appointments Id i)
                   (s\<lparr>appointments :=
                        map (\<lambda>a. if a_id a = i then set_appointment d a else a)
                          (appointments s)\<rparr>)) i of
           None \<Rightarrow> (Inl (NotFound Appointments i), executed (Update Appointments Id i)
                   (s\<lparr>appointments :=
                        map (\<lambda>a. if a_id a = i then set_appointment d a else a)
                          (appointments s)\<rparr>))
         | Some a \<Rightarrow> (Inr a, executed (Update Appointments Id i)
                   (s\<lparr>appointments :=
                        map (\<lambda>a. if a_id a = i then set_appointment d a else a)
                          (appointments s)\<rparr>)))"
  unfolding updateAppointment_def Let_def using assms by (rule if_not_P)

lemma updateAppointment_Inl:
  assumes "updateAppointment i d s = (Inl e, s1)"
  shows "financialRecords s1 = financialRecords s"
proof (cases "getAppointment s i \<noteq> None \<and> \<not> appointment_refs_ok s d")
  case True
  then show ?thesis using assms by (simp add: updateAppointment_def)
next
  case False
  show ?thesis
    using assms unfolding updateAppointment_unfold [OF False]
    by (auto split: option.splits)
qed

lemma updateAppointment_Inr:
  assumes "updateAppointment i d s = (Inr upd, s1)"
  shows "s1 = executed (Update Appointments Id i)
                   (s\<lparr>appointments :=
                        map (\<lambda>a. if a_id a = i then set_appointment d a else a)
                          (appointments s)\<rparr>)"
    and "getAppointment s1 i = Some upd"
    and "\<exists>old. getAppointment s i = Some old \<and> upd = set_appointment d old"
    and "appointment_refs_ok s d"
proof -
  let ?s' = "executed (Update Appointments Id i)
                   (s\<lparr>appointments :=
                        map (\<lambda>a. if a_id a = i then set_appointment d a else a)
                          (appointments s)\<rparr>)"
  have ok: "\<not> (getAppointment s i \<noteq> None \<and> \<not> appointment_refs_ok s d)"
  proof
    assume "getAppointment s i \<noteq> None \<and> \<not> appointment_refs_ok s d"
    then have "updateAppointment i d s = (Inl (ForeignKeyViolation Appointments), s)"
      unfolding updateAppointment_def by (rule if_P)
    then show False using assms by simp
  qed
  have both: "s1 = ?s' \<and> getAppointment ?s' i = Some upd"
    using assms unfolding updateAppointment_unfold [OF ok]
    by (simp split: option.splits)
  then show "s1 = ?s'" and "getAppointment s1 i = Some upd"
    by simp_all
  from both have "map_option (set_appointment d) (getAppointment s i) = Some upd"
    by (simp only: getAppointment_updated)
  then show old: "\<exists>old. getAppointment s i = Some old \<and> upd = set_appointment d old"
    by (cases "getAppointment s i") auto
  then show "appointment_refs_ok s d"
    using ok by auto
qed

lemma updateAppointment_Inr_fields:
  assumes "updateAppointment i d s = (Inr upd, s1)"
  shows "a_status upd = status_or_scheduled (ia_status d)"
    and "a_value upd = parseFloat_text (ia_value d)"
    and "a_id upd = i"
    and "financialRecords s1 = financialRecords s"
    and "appointmentProcedures s1 = appointmentProcedures s"
    and "procedures s1 = procedures s"
    and "appointmentProcedures_seq s1 = appointmentProcedures_seq s"
    and "journal s1 = journal s @ [Update Appointments Id i]"
    and "i \<in> a_id ` set (appointments s1)"
proof -
  note r = updateAppointment_Inr [OF assms]
  from r(3) obtain old where old: "getAppointment s i = Some old" "upd = set_appointment d old"
    by (elim exE conjE)
  show "a_status upd = status_or_scheduled (ia_status d)" using old by simp
  show "a_value upd = parseFloat_text (ia_value d)" using old by simp
  show "a_id upd = i" using old getAppointment_id [OF old(1)] by simp
  show "financialRecords s1 = financialRecords s" unfolding r(1) by simp
  show "appointmentProcedures s1 = appointmentProcedures s" unfolding r(1) by simp
  show "procedures s1 = procedures s" unfolding r(1) by simp
  show "appointmentProcedures_seq s1 = appointmentProcedures_seq s" unfolding r(1) by simp
  show "journal s1 = journal s @ [Update Appointments Id i]" unfolding r(1) by simp
  show "i \<in> a_id ` set (appointments s1)"
    using getAppointment_id [OF r(2)] by force
qed

lemma preprocess_Inl_status:
  assumes "preprocess m cid b s = Inl r"
  shows "status r = 400 \<or> status r = 500"
proof (cases "b_procedureIds b")
  case None
  then show ?thesis using assms preprocess_simps(1) [of b m cid s] by auto
next
  case (Some pids)
  show ?thesis
  proof (cases pids)
    case Nil
    then show ?thesis using Some assms preprocess_simps(2) [of b m cid s] by auto
  next
    case (Cons x xs)
    then have pids: "b_procedureIds b = Some (x # xs)" using Some by simp
    note step = preprocess_simps(3) [OF pids, of m cid s]
    show ?thesis
    proof (cases "resolveProcedures s cid (x # xs) (Finite 0 0) []")
      case (Inl e)
      then show ?thesis using assms unfolding step by (cases e) auto
    next
      case (Inr tv)
      obtain tot vs0 where tv: "tv = (tot, vs0)" by (cases tv)
      show ?thesis
      proof (cases vs0)
        case Nil
        then show ?thesis using assms unfolding step Inr tv by auto
      next
        case (Cons first others)
        then show ?thesis
          using assms unfolding step Inr tv
          by (cases "parseAppointment cid b (toFixed2 tot) (p_id first)") auto
      qed
    qed
  qed
qed

lemma set_financial_resync [simp]:
  "set_financial (resync v now) r = r\<lparr>fr_value := JNum v, fr_date := now\<rparr>"
  by (simp add: set_financial_def resync_def)

lemma updateFinancialRecordByAppointment_resync:
  "updateFinancialRecordByAppointment i (resync v now) s =
     (Inr (), executed (Update FinancialRecords AppointmentId i)
        (s\<lparr>financialRecords :=
             map (\<lambda>r. if fr_appointmentId r = Some i
                       then r\<lparr>fr_value := JNum v, fr_date := now\<rparr> else r)
               (financialRecords s)\<rparr>))"
proof -
  have "financial_refs_ok s (resync v now)"
    by (simp add: financial_refs_ok_def resync_def)
  then show ?thesis
    by (simp add: updateFinancialRecordByAppointment_def)
qed

lemma removeAll_fields [simp]:
  "users (removeAllProceduresFromAppointment i s) = users s"
  "clients (removeAllProceduresFromAppointment i s) = clients s"
  "procedures (removeAllProceduresFromAppointment i s) = procedures s"
  "appointments (removeAllProceduresFromAppointment i s) = appointments s"
  "financialRecords (removeAllProceduresFromAppointment i s) = financialRecords s"
  "appointmentProcedures_seq (removeAllProceduresFromAppointment i s) = appointmentProcedures_seq s"
  "appointmentProcedures (removeAllProceduresFromAppointment i s) =
     filter (\<lambda>l. ap_appointmentId l \<noteq> i) (appointmentProcedures s)"
  "journal (removeAllProceduresFromAppointment i s) =
     journal s @ [Delete AppointmentProcedures AppointmentId i]"
  by (simp_all add: removeAllProceduresFromAppointment_def)

lemma updateWorkflow_Inr:
  assumes "updateWorkflow now i old d ps s = (Inr (), s')"
  obtains upd s1 s3 where
    "updateAppointment i d s = (Inr upd, s1)"
    "addProcedures i ps (removeAllProceduresFromAppointment i s1) = (Inr (), s3)"
    "s' = (if a_status upd = ''completed'' \<and> a_status old \<noteq> ''completed''
           then executed (Update FinancialRecords AppointmentId i)
                  (s3\<lparr>financialRecords :=
                       map (\<lambda>r. if fr_appointmentId r = Some i
                                 then r\<lparr>fr_value := JNum (a_value upd), fr_date := now\<rparr> else r)
                         (financialRecords s3)\<rparr>)
           else s3)"
proof -
  obtain r1 s1 where u: "updateAppointment i d s = (r1, s1)"
    by (cases "updateAppointment i d s")
  obtain upd where r1: "r1 = Inr upd"
    using assms u by (cases r1) (simp_all add: updateWorkflow_def)
  obtain r3 s3 where a: "addProcedures i ps (removeAllProceduresFromAppointment i s1) = (r3, s3)"
    by (cases "addProcedures i ps (removeAllProceduresFromAppointment i s1)")
  have r3: "r3 = Inr ()"
    using assms u r1 a by (cases r3) (simp_all add: updateWorkflow_def)
  have "s' = (if a_status upd = ''completed'' \<and> a_status old \<noteq> ''completed''
           then executed (Update FinancialRecords AppointmentId i)
                  (s3\<lparr>financialRecords :=
                       map (\<lambda>r. if fr_appointmentId r = Some i
                                 then r\<lparr>fr_value := JNum (a_value upd), fr_date := now\<rparr> else r)
                         (financialRecords s3)\<rparr>)
           else s3)"
    using assms u r1 a r3
    by (auto simp: updateWorkflow_def updateFinancialRecordByAppointment_resync split: if_splits)
  then show thesis
    using that [of upd s1 s3] u r1 a r3 by simp
qed

lemma updateWorkflow_Inl:
  assumes "updateWorkflow now i old d ps s = (Inl e, s')"
  shows "financialRecords s' = financialRecords s"
proof -
  obtain r1 s1 where u: "updateAppointment i d s = (r1, s1)"
    by (cases "updateAppointment i d s")
  show ?thesis
  proof (cases r1)
    case (Inl e1)
    then show ?thesis
      using assms u updateAppointment_Inl [of i d s e1 s1] by (simp add: updateWorkflow_def)
  next
    case (Inr upd)
    obtain r3 s3 where a: "addProcedures i ps (removeAllProceduresFromAppointment i s1) = (r3, s3)"
      by (cases "addProcedures i ps (removeAllProceduresFromAppointment i s1)")
    have s3: "financialRecords s3 = financialRecords s"
      using addProcedures_frame(5) [of i ps "removeAllProceduresFromAppointment i s1"] a
        updateAppointment_Inr_fields(4) [of i d s upd s1] u Inr by simp
    show ?thesis
      using assms u Inr a s3
      by (cases r3)
        (simp_all add: updateWorkflow_def updateFinancialRecordByAppointment_resync
          split: if_splits)
  qed
qed

lemma putAppointment_200:
  assumes "putAppointmentHandler now (Some u) i b s = (r, s')" and "status r = 200"
  obtains old d ps where
    "getAppointment s i = Some old" "Some (a_companyId old) = u_companyId u"
    "preprocess UpdateFailed (u_companyId u) b s = Inr (d, ps)"
    "updateWorkflow now i old d ps s = (Inr (), s')"
    "r = reply 200 (AppointmentJson (getAppointment s' i))"
proof -
  obtain old where old: "getAppointment s i = Some old"
    using assms by (cases "getAppointment s i") (auto simp: putAppointmentHandler_def)
  have co: "Some (a_companyId old) = u_companyId u"
    using assms old by (auto simp: putAppointmentHandler_def split: if_splits)
  have step: "putAppointmentHandler now (Some u) i b s =
     (case preprocess UpdateFailed (u_companyId u) b s of
                    Inl r \<Rightarrow> (r, s)
                  | Inr (appointmentData, validProcedures) \<Rightarrow>
                      (case updateWorkflow now i old
                              appointmentData validProcedures s of
                         (Inl e, s') \<Rightarrow> (reply 400 (Message ValidationFailed), s')
                       | (Inr _, s') \<Rightarrow>
                           (reply 200 (AppointmentJson (getAppointment s' i)),
                            s')))"
    using old co by (simp add: putAppointmentHandler_def)
  obtain d ps where pre: "preprocess UpdateFailed (u_companyId u) b s = Inr (d, ps)"
  proof (cases "preprocess UpdateFailed (u_companyId u) b s")
    case (Inl r')
    then have "r = r'" using assms(1) unfolding step by simp
    then show ?thesis using preprocess_Inl_status [OF Inl] assms(2) by simp
  next
    case (Inr dp)
    then show ?thesis using that by (cases dp) simp
  qed
  obtain w s'' where w: "updateWorkflow now i old d ps s = (w, s'')"
    by (cases "updateWorkflow now i old d ps s")
  have "w = Inr () \<and> s'' = s' \<and> r = reply 200 (AppointmentJson (getAppointment s' i))"
    using assms w unfolding step pre by (cases w) auto
  then show thesis
    using that [of old d ps] old co pre w by simp
qed

lemma putAppointment_not_200:
  assumes "putAppointmentHandler now (Some u) i b s = (r, s')" and "status r \<noteq> 200"
  shows "financialRecords s' = financialRecords s"
proof (cases "getAppointment s i")
  case None
  then show ?thesis using assms by (auto simp: putAppointmentHandler_def)
next
  case (Some old)
  show ?thesis
  proof (cases "Some (a_companyId old) = u_companyId u")
    case False
    then show ?thesis using assms Some by (auto simp: putAppointmentHandler_def)
  next
    case True
    have step: "putAppointmentHandler now (Some u) i b s =
     (case preprocess UpdateFailed (u_companyId u) b s of
                    Inl r \<Rightarrow> (r, s)
                  | Inr (appointmentData, validProcedures) \<Rightarrow>
                      (case updateWorkflow now i old
                              appointmentData validProcedures s of
                         (Inl e, s') \<Rightarrow> (reply 400 (Message ValidationFailed), s')
                       | (Inr _, s') \<Rightarrow>
                           (reply 200 (AppointmentJson (getAppointment s' i)),
                            s')))"
      using Some True by (simp add: putAppointmentHandler_def)
    show ?thesis
    proof (cases "preprocess UpdateFailed (u_companyId u) b s")
      case (Inl r')
      then show ?thesis using assms(1) unfolding step by simp
    next
      case (Inr dp)
      obtain d ps where dp: "dp = (d, ps)" by (cases dp)
      obtain w s'' where w: "updateWorkflow now i old d ps s = (w, s'')"
        by (cases "updateWorkflow now i old d ps s")
      show ?thesis
      proof (cases w)
        case (Inl e)
        then show ?thesis
          using assms(1) updateWorkflow_Inl [of now i old d ps s e s''] w
          unfolding step Inr dp by simp
      next
        case (Inr x)
        then show ?thesis
          using assms w unfolding step \<open>preprocess UpdateFailed (u_companyId u) b s = Inr dp\<close> dp
          by auto
      qed
    qed
  qed
qed

lemma getAppointment_cong: "appointments s = appointments t \<Longrightarrow> getAppointment s i = getAppointment t i"
  by (simp add: getAppointment_def)

lemma getProcedure_mem: "getProcedure s i = Some p \<Longrightarrow> p \<in> set (procedures s) \<and> p_id p = i"
  by (auto simp: getProcedure_def dest: find_Some_set)

lemma putAppointment_200_state:
  assumes "putAppointmentHandler now (Some u) i b s = (r, s')" and "status r = 200"
  obtains old d ps upd where
    "getAppointment s i = Some old"
    "b_procedureIds b = Some (map (\<lambda>p. Some (p_id p)) ps)" "ps \<noteq> []"
    "parseAppointment (u_companyId u) b
       (toFixed2 (foldl (\<lambda>t p. js_add t (parseFloat (p_value p))) (Finite 0 0) ps))
       (p_id (hd ps)) = Some d"
    "\<forall>p \<in> set ps. getProcedure s (p_id p) = Some p \<and> Some (p_companyId p) = u_companyId u"
    "upd = set_appointment d old"
    "getAppointment s' i = Some upd"
    "r = reply 200 (AppointmentJson (Some upd))"
    "financialRecords s' =
       (if a_status upd = ''completed'' \<and> a_status old \<noteq> ''completed''
        then map (\<lambda>x. if fr_appointmentId x = Some i
                       then x\<lparr>fr_value := JNum (a_value upd), fr_date := now\<rparr> else x)
               (financialRecords s)
        else financialRecords s)"
    "appointmentProcedures s' =
       filter (\<lambda>l. ap_appointmentId l \<noteq> i) (appointmentProcedures s) @
       map (\<lambda>(k, p). \<lparr>ap_id = k, ap_appointmentId = i, ap_procedureId = p_id p\<rparr>)
         (enumerate (appointmentProcedures_seq s) ps)"
    "journal s' =
       journal s @ Update Appointments Id i # Delete AppointmentProcedures AppointmentId i #
       map (\<lambda>(k, p). Insert AppointmentProcedures k) (enumerate (appointmentProcedures_seq s) ps) @
       (if a_status upd = ''completed'' \<and> a_status old \<noteq> ''completed''
        then [Update FinancialRecords AppointmentId i] else [])"
proof -
  obtain old d vs where
    old: "getAppointment s i = Some old"
    and pre: "preprocess UpdateFailed (u_companyId u) b s = Inr (d, vs)"
    and wf: "updateWorkflow now i old d vs s = (Inr (), s')"
    and r: "r = reply 200 (AppointmentJson (getAppointment s' i))"
    by (rule putAppointment_200 [OF assms])
  obtain ps tot first others where
    ps: "b_procedureIds b = Some (map (\<lambda>p. Some (p_id p)) ps)" "vs = ps" "ps = first # others"
    "\<forall>p \<in> set ps. getProcedure s (p_id p) = Some p \<and> Some (p_companyId p) = u_companyId u"
    "tot = foldl (\<lambda>t p. js_add t (parseFloat (p_value p))) (Finite 0 0) ps"
    "parseAppointment (u_companyId u) b (toFixed2 tot) (p_id first) = Some d"
    by (rule preprocess_Inr [OF pre])
  obtain upd s1 s3 where
    u: "updateAppointment i d s = (Inr upd, s1)"
    and a: "addProcedures i vs (removeAllProceduresFromAppointment i s1) = (Inr (), s3)"
    and s': "s' = (if a_status upd = ''completed'' \<and> a_status old \<noteq> ''completed''
           then executed (Update FinancialRecords AppointmentId i)
                  (s3\<lparr>financialRecords :=
                       map (\<lambda>r. if fr_appointmentId r = Some i
                                 then r\<lparr>fr_value := JNum (a_value upd), fr_date := now\<rparr> else r)
                         (financialRecords s3)\<rparr>)
           else s3)"
    by (rule updateWorkflow_Inr [OF wf])
  note uf = updateAppointment_Inr_fields [OF u]
  note ur = updateAppointment_Inr [OF u]
  let ?t = "removeAllProceduresFromAppointment i s1"
  have s3: "s3 = snd (addProcedures i vs ?t)"
    using a by simp
  have fk1: "i \<in> a_id ` set (appointments ?t)"
    using uf(9) by simp
  have fk2: "\<forall>p \<in> set vs. p_id p \<in> p_id ` set (procedures ?t)"
    using ps(2,4) uf(6) by (auto dest: getProcedure_mem)
  note rows = addProcedures_rows [OF fk1 fk2]
  have app3: "appointments s3 = appointments s1"
    unfolding s3 by simp
  have fin3: "financialRecords s3 = financialRecords s"
    unfolding s3 using uf(4) by simp
  have aps3: "appointmentProcedures s3 =
       filter (\<lambda>l. ap_appointmentId l \<noteq> i) (appointmentProcedures s) @
       map (\<lambda>(k, p). \<lparr>ap_id = k, ap_appointmentId = i, ap_procedureId = p_id p\<rparr>)
         (enumerate (appointmentProcedures_seq s) ps)"
    unfolding s3 using rows uf(5,7) ps(2) by simp
  have j3: "journal s3 =
       journal s @ Update Appointments Id i # Delete AppointmentProcedures AppointmentId i #
       map (\<lambda>(k, p). Insert AppointmentProcedures k) (enumerate (appointmentProcedures_seq s) ps)"
    unfolding s3 using rows uf(7,8) ps(2) by simp
  have g: "getAppointment s' i = Some upd"
  proof -
    have "appointments s' = appointments s1"
      unfolding s' using app3 by simp
    then show ?thesis
      using getAppointment_cong [of s' s1 i] ur(2) by simp
  qed
  from ur(3) old have upd: "upd = set_appointment d old"
    by auto
  show thesis
  proof (rule that [of old ps d upd])
    show "getAppointment s i = Some old" by (rule old)
    show "b_procedureIds b = Some (map (\<lambda>p. Some (p_id p)) ps)" by (rule ps(1))
    show "ps \<noteq> []" using ps(3) by simp
    show "parseAppointment (u_companyId u) b
       (toFixed2 (foldl (\<lambda>t p. js_add t (parseFloat (p_value p))) (Finite 0 0) ps))
       (p_id (hd ps)) = Some d"
      using ps(3,5,6) by simp
    show "\<forall>p \<in> set ps. getProcedure s (p_id p) = Some p \<and> Some (p_companyId p) = u_companyId u"
      by (rule ps(4))
    show "upd = set_appointment d old" by (rule upd)
    show "getAppointment s' i = Some upd" by (rule g)
    show "r = reply 200 (AppointmentJson (Some upd))" using r g by simp
    show "financialRecords s' =
       (if a_status upd = ''completed'' \<and> a_status old \<noteq> ''completed''
        then map (\<lambda>x. if fr_appointmentId x = Some i
                       then x\<lparr>fr_value := JNum (a_value upd), fr_date := now\<rparr> else x)
               (financialRecords s)
        else financialRecords s)"
      unfolding s' using fin3 by simp
    show "appointmentProcedures s' =
       filter (\<lambda>l. ap_appointmentId l \<noteq> i) (appointmentProcedures s) @
       map (\<lambda>(k, p). \<lparr>ap_id = k, ap_appointmentId = i, ap_procedureId = p_id p\<rparr>)
         (enumerate (appointmentProcedures_seq s) ps)"
      unfolding s' using aps3 by simp
    show "journal s' =
       journal s @ Update Appointments Id i # Delete AppointmentProcedures AppointmentId i #
       map (\<lambda>(k, p). Insert AppointmentProcedures k) (enumerate (appointmentProcedures_seq s) ps) @
       (if a_status upd = ''completed'' \<and> a_status old \<noteq> ''completed''
        then [Update FinancialRecords AppointmentId i] else [])"
      unfolding s' using j3 by simp
  qed
qed


section \<open>The financial record follows the transition into completed\<close>

text \<open>
  C4. After an update that is answered with 200, the financial records of the appointment
  carry the new value of the appointment and the date \<open>now\<close> (the clock of the request, not
  the date of the appointment) exactly when the stored status has become \<open>completed\<close> and
  was not \<open>completed\<close> before; in every other case, and after every update that is not
  answered with 200, the table of financial records is as it was. The witness updates the
  scheduled appointment 1 to \<open>completed\<close> (record resynchronised) and the completed
  appointment 2 to \<open>completed\<close> again (records unchanged).
\<close>

theorem update_syncs_financial_record:
  assumes "putAppointmentHandler now (Some u) i b s = (r, s')"
    and "getAppointment s i = Some old"
  shows "(status r = 200 \<longrightarrow>
           (\<exists>new. getAppointment s' i = Some new \<and> body r = AppointmentJson (Some new) \<and>
              financialRecords s' =
                (if a_status new = ''completed'' \<and> a_status old \<noteq> ''completed''
                 then map (\<lambda>x. if fr_appointmentId x = Some i
                                then x\<lparr>fr_value := JNum (a_value new), fr_date := now\<rparr> else x)
                        (financialRecords s)
                 else financialRecords s))) \<and>
         (status r \<noteq> 200 \<longrightarrow> financialRecords s' = financialRecords s)"
proof (intro conjI impI)
  assume ok: "status r = 200"
  obtain old' d ps upd where
    h: "getAppointment s i = Some old'" "getAppointment s' i = Some upd"
    "r = reply 200 (AppointmentJson (Some upd))"
    "financialRecords s' =
       (if a_status upd = ''completed'' \<and> a_status old' \<noteq> ''completed''
        then map (\<lambda>x. if fr_appointmentId x = Some i
                       then x\<lparr>fr_value := JNum (a_value upd), fr_date := now\<rparr> else x)
               (financialRecords s)
        else financialRecords s)"
    by (rule putAppointment_200_state [OF assms(1) ok])
  have "old' = old" using h(1) assms(2) by simp
  then show "\<exists>new. getAppointment s' i = Some new \<and> body r = AppointmentJson (Some new) \<and>
              financialRecords s' =
                (if a_status new = ''completed'' \<and> a_status old \<noteq> ''completed''
                 then map (\<lambda>x. if fr_appointmentId x = Some i
                                then x\<lparr>fr_value := JNum (a_value new), fr_date := now\<rparr> else x)
                        (financialRecords s)
                 else financialRecords s)"
    using h by (intro exI [of _ upd]) simp
next
  assume "status r \<noteq> 200"
  then show "financialRecords s' = financialRecords s"
    using putAppointment_not_200 [OF assms(1)] by simp
qed

lemma put_example_1:
  "status (fst (putAppointmentHandler 9000 (Some bia) 1
      (request\<lparr>b_status := Given ''completed''\<rparr>) salon)) = 200"
  "getAppointment (snd (putAppointmentHandler 9000 (Some bia) 1
      (request\<lparr>b_status := Given ''completed''\<rparr>) salon)) 1 =
   Some \<lparr>a_id = 1, a_clientId = 1, a_collaboratorId = 2, a_procedureId = 3, a_date = 5000,
         a_status = ''completed'', a_companyId = 1, a_value = Finite 5 1, a_notes = None\<rparr>"
  by code_simp+

lemma put_example_2:
  "status (fst (putAppointmentHandler 9000 (Some caio) 2
      (request\<lparr>b_procedureIds := Some [Some 4], b_clientId := Given 2,
               b_collaboratorId := Given 3, b_status := Given ''completed''\<rparr>) salon)) = 200"
  "getAppointment (snd (putAppointmentHandler 9000 (Some caio) 2
      (request\<lparr>b_procedureIds := Some [Some 4], b_clientId := Given 2,
               b_collaboratorId := Given 3, b_status := Given ''completed''\<rparr>) salon)) 2 =
   Some \<lparr>a_id = 2, a_clientId = 2, a_collaboratorId = 3, a_procedureId = 4, a_date = 5000,
         a_status = ''completed'', a_companyId = 2, a_value = Finite 25 1, a_notes = None\<rparr>"
  by code_simp+


theorem update_syncs_financial_record_witness:
  "getAppointment salon 1 = Some appointment1 \<and>
   a_status appointment1 = ''scheduled'' \<and>
   status (fst (putAppointmentHandler 9000 (Some bia) 1
      (request\<lparr>b_status := Given ''completed''\<rparr>) salon)) = 200 \<and>
   financialRecords (snd (putAppointmentHandler 9000 (Some bia) 1
      (request\<lparr>b_status := Given ''completed''\<rparr>) salon)) =
     [income1\<lparr>fr_value := JNum (Finite 5 1), fr_date := 9000\<rparr>, income2] \<and>
   getAppointment salon 2 = Some appointment2 \<and>
   a_status appointment2 = ''completed'' \<and>
   status (fst (putAppointmentHandler 9000 (Some caio) 2
      (request\<lparr>b_procedureIds := Some [Some 4], b_clientId := Given 2,
               b_collaboratorId := Given 3, b_status := Given ''completed''\<rparr>) salon)) = 200 \<and>
   financialRecords (snd (putAppointmentHandler 9000 (Some caio) 2
      (request\<lparr>b_procedureIds := Some [Some 4], b_clientId := Given 2,
               b_collaboratorId := Given 3, b_status := Given ''completed''\<rparr>) salon)) =
     [income1, income2]"
proof -
  let ?X = "putAppointmentHandler 9000 (Some bia) 1
      (request\<lparr>b_status := Given ''completed''\<rparr>) salon"
  let ?Y = "putAppointmentHandler 9000 (Some caio) 2
      (request\<lparr>b_procedureIds := Some [Some 4], b_clientId := Given 2,
               b_collaboratorId := Given 3, b_status := Given ''completed''\<rparr>) salon"
  have x: "?X = (fst ?X, snd ?X)" and y: "?Y = (fst ?Y, snd ?Y)"
    by simp_all
  have st: "a_status appointment1 = ''scheduled''" "a_status appointment2 = ''completed''"
    by (simp_all add: appointment1_def appointment2_def)
  have fr: "financialRecords salon = [income1, income2]"
    "fr_appointmentId income1 = Some 1" "fr_appointmentId income2 = Some 2"
    by (simp_all add: salon_def income1_def income2_def)
  from update_syncs_financial_record [OF x salon_lookups(1)] put_example_1 st fr
  have 1: "financialRecords (snd ?X) =
     [income1\<lparr>fr_value := JNum (Finite 5 1), fr_date := 9000\<rparr>, income2]"
    by simp
  from update_syncs_financial_record [OF y salon_lookups(2)] put_example_2 st fr
  have 2: "financialRecords (snd ?Y) = [income1, income2]"
    by simp
  show ?thesis
    using 1 2 st put_example_1(1) put_example_2(1) salon_lookups(1,2) by simp
qed


section \<open>An update without status\<close>

text \<open>
  C9. An update that is answered with 200 and whose body has no \<open>status\<close>, or the empty
  string as \<open>status\<close>, stores the status \<open>scheduled\<close>, whatever the status was before
  (\<open>updates.status || 'scheduled'\<close>). The witness updates appointment 2, which was
  \<open>completed\<close>. A \<open>status\<close> that is \<open>null\<close> or not a string is rejected by the insert
  schema, so the update is not answered with 200.
\<close>

theorem update_without_status_resets_to_scheduled:
  assumes "putAppointmentHandler now (Some u) i b s = (r, s')"
    and "status r = 200"
    and "b_status b = Missing \<or> b_status b = Given []"
  shows "\<exists>new. getAppointment s' i = Some new \<and> body r = AppointmentJson (Some new) \<and>
           a_status new = ''scheduled''"
proof (rule putAppointment_200_state [OF assms(1,2)])
  fix old d upd and ps :: "procedure list"
  assume h: "parseAppointment (u_companyId u) b
       (toFixed2 (foldl (\<lambda>t p. js_add t (parseFloat (p_value p))) (Finite 0 0) ps))
       (p_id (hd ps)) = Some d"
    "upd = set_appointment d old"
    "getAppointment s' i = Some upd"
    "r = reply 200 (AppointmentJson (Some upd))"
  have "ia_status d = None \<or> ia_status d = Some []"
    using parseAppointment_Some(2) [OF h(1)] assms(3) by auto
  then have "a_status upd = ''scheduled''"
    unfolding h(2) by (auto simp: status_or_scheduled_def)
  then show ?thesis
    using h(3,4) by simp
qed

theorem update_without_status_resets_to_scheduled_witness:
  "status (fst (putAppointmentHandler 9000 (Some caio) 2
      (request\<lparr>b_procedureIds := Some [Some 4], b_clientId := Given 2,
               b_collaboratorId := Given 3\<rparr>) salon)) = 200 \<and>
   b_status (request\<lparr>b_procedureIds := Some [Some 4], b_clientId := Given 2,
               b_collaboratorId := Given 3\<rparr>) = Missing \<and>
   map_option a_status (getAppointment salon 2) = Some ''completed'' \<and>
   map_option a_status (getAppointment (snd (putAppointmentHandler 9000 (Some caio) 2
      (request\<lparr>b_procedureIds := Some [Some 4], b_clientId := Given 2,
               b_collaboratorId := Given 3\<rparr>) salon)) 2) = Some ''scheduled''"
proof -
  let ?b = "request\<lparr>b_procedureIds := Some [Some 4], b_clientId := Given 2,
               b_collaboratorId := Given 3\<rparr>"
  let ?Y = "putAppointmentHandler 9000 (Some caio) 2 ?b salon"
  have y: "?Y = (fst ?Y, snd ?Y)"
    by simp
  have ok: "status (fst ?Y) = 200"
    by code_simp
  have m: "b_status ?b = Missing \<or> b_status ?b = Given []"
    by (simp add: request_def)
  have old: "map_option a_status (getAppointment salon 2) = Some ''completed''"
    by (simp add: salon_lookups appointment2_def)
  from update_without_status_resets_to_scheduled [OF y ok m]
  have "map_option a_status (getAppointment (snd ?Y) 2) = Some ''scheduled''"
    by auto
  then show ?thesis
    using ok old by (simp add: request_def)
qed


section \<open>The procedure rows are replaced\<close>

text \<open>
  C6. After an update that is answered with 200, the rows of \<open>appointment_procedures\<close> for
  the appointment are exactly one new row per submitted procedure, in the order submitted;
  the rows of other appointments are untouched; the journal shows the delete of the old
  rows before the inserts. The witness replaces the procedures 1 and 2 of appointment 1 by
  procedure 3.
\<close>

lemma filter_rows_same:
  "filter (\<lambda>l. ap_appointmentId l = i)
     (map (\<lambda>(k, p). \<lparr>ap_id = k, ap_appointmentId = i, ap_procedureId = f p\<rparr>) xs) =
   map (\<lambda>(k, p). \<lparr>ap_id = k, ap_appointmentId = i, ap_procedureId = f p\<rparr>) xs"
  "filter (\<lambda>l. ap_appointmentId l \<noteq> i)
     (map (\<lambda>(k, p). \<lparr>ap_id = k, ap_appointmentId = i, ap_procedureId = f p\<rparr>) xs) = []"
  by (induction xs) auto

lemma filter_eq_neq_Nil: "filter (\<lambda>l. f l = i) (filter (\<lambda>l. f l \<noteq> i) xs) = []"
  by (induction xs) auto

theorem update_replaces_procedure_rows:
  assumes "putAppointmentHandler now (Some u) i b s = (r, s')" and "status r = 200"
  shows "\<exists>ps :: procedure list. b_procedureIds b = Some (map (\<lambda>p. Some (p_id p)) ps) \<and> ps \<noteq> [] \<and>
      filter (\<lambda>l. ap_appointmentId l = i) (appointmentProcedures s') =
        map (\<lambda>(k, p). \<lparr>ap_id = k, ap_appointmentId = i, ap_procedureId = p_id p\<rparr>)
          (enumerate (appointmentProcedures_seq s) ps) \<and>
      filter (\<lambda>l. ap_appointmentId l \<noteq> i) (appointmentProcedures s') =
        filter (\<lambda>l. ap_appointmentId l \<noteq> i) (appointmentProcedures s) \<and>
      (\<exists>rest. journal s' =
         journal s @ Update Appointments Id i # Delete AppointmentProcedures AppointmentId i #
         map (\<lambda>(k, p). Insert AppointmentProcedures k)
           (enumerate (appointmentProcedures_seq s) ps) @ rest)"
proof (rule putAppointment_200_state [OF assms])
  fix old d upd and ps :: "procedure list"
  assume h: "b_procedureIds b = Some (map (\<lambda>p. Some (p_id p)) ps)" "ps \<noteq> []"
    "appointmentProcedures s' =
       filter (\<lambda>l. ap_appointmentId l \<noteq> i) (appointmentProcedures s) @
       map (\<lambda>(k, p). \<lparr>ap_id = k, ap_appointmentId = i, ap_procedureId = p_id p\<rparr>)
         (enumerate (appointmentProcedures_seq s) ps)"
    "journal s' =
       journal s @ Update Appointments Id i # Delete AppointmentProcedures AppointmentId i #
       map (\<lambda>(k, p). Insert AppointmentProcedures k) (enumerate (appointmentProcedures_seq s) ps) @
       (if a_status upd = ''completed'' \<and> a_status old \<noteq> ''completed''
        then [Update FinancialRecords AppointmentId i] else [])"
  have c3: "filter (\<lambda>l. ap_appointmentId l = i) (appointmentProcedures s') =
        map (\<lambda>(k, p). \<lparr>ap_id = k, ap_appointmentId = i, ap_procedureId = p_id p\<rparr>)
          (enumerate (appointmentProcedures_seq s) ps)"
    unfolding h(3) by (simp add: filter_rows_same filter_eq_neq_Nil)
  have c4: "filter (\<lambda>l. ap_appointmentId l \<noteq> i) (appointmentProcedures s') =
        filter (\<lambda>l. ap_appointmentId l \<noteq> i) (appointmentProcedures s)"
    unfolding h(3) by (simp add: filter_rows_same)
  have c5: "\<exists>rest. journal s' =
         journal s @ Update Appointments Id i # Delete AppointmentProcedures AppointmentId i #
         map (\<lambda>(k, p). Insert AppointmentProcedures k)
           (enumerate (appointmentProcedures_seq s) ps) @ rest"
    unfolding h(4) by (rule exI) (rule refl)
  show ?thesis
    by (rule exI [where x = ps]) (use h(1,2) c3 c4 c5 in simp)
qed

theorem update_replaces_procedure_rows_witness:
  "status (fst (putAppointmentHandler 9000 (Some bia) 1 request salon)) = 200 \<and>
   b_procedureIds request = Some [Some 3] \<and>
   map ap_procedureId (filter (\<lambda>l. ap_appointmentId l = 1) (appointmentProcedures salon)) = [1, 2] \<and>
   filter (\<lambda>l. ap_appointmentId l = 1)
     (appointmentProcedures (snd (putAppointmentHandler 9000 (Some bia) 1 request salon))) =
     [\<lparr>ap_id = 4, ap_appointmentId = 1, ap_procedureId = 3\<rparr>] \<and>
   filter (\<lambda>l. ap_appointmentId l \<noteq> 1)
     (appointmentProcedures (snd (putAppointmentHandler 9000 (Some bia) 1 request salon))) =
     [\<lparr>ap_id = 3, ap_appointmentId = 2, ap_procedureId = 4\<rparr>]"
proof -
  let ?X = "putAppointmentHandler 9000 (Some bia) 1 request salon"
  have x: "?X = (fst ?X, snd ?X)"
    by simp
  have ok: "status (fst ?X) = 200"
    by code_simp
  have b: "b_procedureIds request = Some [Some 3]"
    by (simp add: request_def)
  have before: "appointmentProcedures salon =
      [\<lparr>ap_id = 1, ap_appointmentId = 1, ap_procedureId = 1\<rparr>,
       \<lparr>ap_id = 2, ap_appointmentId = 1, ap_procedureId = 2\<rparr>,
       \<lparr>ap_id = 3, ap_appointmentId = 2, ap_procedureId = 4\<rparr>]"
    "appointmentProcedures_seq salon = 4"
    by (simp_all add: salon_def)
  from update_replaces_procedure_rows [OF x ok] obtain ps :: "procedure list" where
    ps: "b_procedureIds request = Some (map (\<lambda>p. Some (p_id p)) ps)"
    "filter (\<lambda>l. ap_appointmentId l = 1) (appointmentProcedures (snd ?X)) =
        map (\<lambda>(k, p). \<lparr>ap_id = k, ap_appointmentId = 1, ap_procedureId = p_id p\<rparr>)
          (enumerate (appointmentProcedures_seq salon) ps)"
    "filter (\<lambda>l. ap_appointmentId l \<noteq> 1) (appointmentProcedures (snd ?X)) =
        filter (\<lambda>l. ap_appointmentId l \<noteq> 1) (appointmentProcedures salon)"
    by (elim exE conjE)
  from ps(1) b obtain p where p: "ps = [p]" "p_id p = 3"
    by (cases ps) auto
  show ?thesis
    using ok b ps(2,3) p before by simp
qed

section \<open>Dashboard statistics by role\<close>




lemma rewhere_Conjoin [simp]: "rewhere Conjoin p q = (p \<and> q)"
  by (simp add: rewhere_def)





section \<open>Creating an appointment for a client of another company\<close>

text \<open>
  C2 fails on the code. The POST handler checks the company of every procedure and
  nothing else: \<open>ana\<close>, admin of company 1, creates an appointment for \<open>enzo\<close>, a client of
  company 2, and is answered 201; one appointment, one procedure row and one financial
  record are written. The same holds with \<open>caio\<close>, a user of company 2, as collaborator.
\<close>

theorem create_accepts_foreign_references:
  "c_companyId enzo \<noteq> 1 \<and> u_companyId ana = Some 1 \<and> getClient salon 2 = Some enzo \<and>
   fst (postAppointmentHandler (Some ana) (request\<lparr>b_clientId := Given 2\<rparr>) salon) =
     reply 201 (AppointmentJson (Some
       \<lparr>a_id = 3, a_clientId = 2, a_collaboratorId = 2, a_procedureId = 3, a_date = 5000,
        a_status = ''scheduled'', a_companyId = 1, a_value = Finite 5 1, a_notes = None\<rparr>)) \<and>
   length (appointments (snd (postAppointmentHandler (Some ana)
      (request\<lparr>b_clientId := Given 2\<rparr>) salon))) = length (appointments salon) + 1 \<and>
   length (appointmentProcedures (snd (postAppointmentHandler (Some ana)
      (request\<lparr>b_clientId := Given 2\<rparr>) salon))) = length (appointmentProcedures salon) + 1 \<and>
   length (financialRecords (snd (postAppointmentHandler (Some ana)
      (request\<lparr>b_clientId := Given 2\<rparr>) salon))) = length (financialRecords salon) + 1 \<and>
   u_companyId caio = Some 2 \<and>
   status (fst (postAppointmentHandler (Some ana)
      (request\<lparr>b_collaboratorId := Given 3\<rparr>) salon)) = 201 \<and>
   map a_collaboratorId (appointments (snd (postAppointmentHandler (Some ana)
      (request\<lparr>b_collaboratorId := Given 3\<rparr>) salon))) = [2, 3, 3]"
  by code_simp

section \<open>Rounding to the nearest binary64 number\<close>

text \<open>
  The value of \<open>Finite m e\<close> is the real number \<open>m * 2 powi e\<close>. The lemmas of this section
  bound the distance between the result of an operation and the exact result: an
  operation whose exact result is below \<open>2 ^ B\<close> is off by at most \<open>2 ^ B / 2 ^ 54\<close>, half
  a unit in the last of 53 binary places, and a whole number below \<open>2 ^ 53\<close> is
  represented exactly.
\<close>

lemma bitlen_pos: "0 < n \<Longrightarrow> 2 ^ (bitlen n - 1) \<le> n \<and> n < 2 ^ bitlen n"
proof (induction n rule: bitlen.induct)
  case (1 n)
  show ?case
  proof (cases "n div 2 = 0")
    case True
    then have "n = 1" using "1.prems" by presburger
    then show ?thesis by (simp add: bitlen.simps)
  next
    case False
    then have pos: "0 < n div 2" using "1.prems" by presburger
    have ih: "2 ^ (bitlen (n div 2) - 1) \<le> n div 2 \<and> n div 2 < 2 ^ bitlen (n div 2)"
      using "1.IH" "1.prems" pos by simp
    have bl: "bitlen n = Suc (bitlen (n div 2))"
      using "1.prems" by (subst bitlen.simps) simp
    have pos2: "0 < bitlen (n div 2)"
      using pos by (subst bitlen.simps) simp
    then obtain k where k: "bitlen (n div 2) = Suc k"
      by (cases "bitlen (n div 2)") simp_all
    have "2 * 2 ^ k \<le> n" using ih k by simp presburger
    moreover have "n < 2 * 2 ^ Suc k" using ih k by simp presburger
    ultimately show ?thesis using bl k by simp
  qed
qed

lemma round_half_even_near:
  assumes "0 \<le> p" and "0 < q"
  shows "\<bar>real_of_int (round_half_even p q) - real_of_int p / real_of_int q\<bar> \<le> 1 / 2"
    and "0 \<le> round_half_even p q"
proof -
  let ?n = "p div q" and ?r = "p mod q"
  have pq: "real_of_int p = real_of_int ?n * real_of_int q + real_of_int ?r"
    by (metis mult.commute of_int_add of_int_mult mult_div_mod_eq)
  have r: "0 \<le> ?r" "?r < q" using assms by simp_all
  have q: "0 < real_of_int q" using assms by simp
  have x: "real_of_int p / real_of_int q = real_of_int ?n + real_of_int ?r / real_of_int q"
    using q pq by (simp add: field_simps)
  have n0: "0 \<le> ?n" using assms by (simp add: pos_imp_zdiv_nonneg_iff)
  show "0 \<le> round_half_even p q"
    using n0 by (simp add: round_half_even_def Let_def)
  define f where "f = real_of_int ?r / real_of_int q"
  have xf: "real_of_int p / real_of_int q = real_of_int ?n + f"
    using x by (simp add: f_def)
  have f0: "0 \<le> f" using r q by (simp add: f_def)
  have "?r \<le> q" using r(2) by linarith
  then have f1: "f \<le> 1" using q by (simp add: f_def field_simps)
  consider (lo) "2 * ?r < q" | (hi) "q < 2 * ?r" | (tie) "2 * ?r = q" by linarith
  then show "\<bar>real_of_int (round_half_even p q) - real_of_int p / real_of_int q\<bar> \<le> 1 / 2"
  proof cases
    case lo
    then have "2 * real_of_int ?r < real_of_int q" by linarith
    then have "f \<le> 1 / 2" using q by (simp add: f_def field_simps)
    moreover have "round_half_even p q = ?n"
      using lo by (simp add: round_half_even_def Let_def)
    ultimately show ?thesis unfolding xf using f0 by simp
  next
    case hi
    then have "real_of_int q < 2 * real_of_int ?r" by linarith
    then have "1 / 2 \<le> f" using q by (simp add: f_def field_simps)
    moreover have "round_half_even p q = ?n + 1"
      using hi by (simp add: round_half_even_def Let_def)
    ultimately show ?thesis unfolding xf using f1 by simp
  next
    case tie
    then have "2 * real_of_int ?r = real_of_int q" by linarith
    then have "f = 1 / 2" using q by (simp add: f_def field_simps)
    moreover have "round_half_even p q = ?n \<or> round_half_even p q = ?n + 1"
      using tie by (simp add: round_half_even_def Let_def)
    ultimately show ?thesis unfolding xf by auto
  qed
qed

lemma pow_split: "(2::real) ^ nat b / 2 ^ nat (- b) = 2 powi b"
  by (cases "0 \<le> b") (simp_all add: power_int_def field_simps)

lemma powi_Suc: "(2::real) powi (k + 1) = 2 * 2 powi k"
  by (simp add: power_int_add)

lemma powi_pred: "(2::real) powi (k - 1) = 2 powi k / 2"
  by (simp add: power_int_diff)

lemma strip2_value:
  "strip2 m e = (m', e') \<Longrightarrow>
     real_of_int m' * 2 powi e' = real_of_int m * 2 powi e \<and> (0 \<le> m \<longrightarrow> 0 \<le> m')"
proof (induction m e rule: strip2.induct)
  case (1 m e)
  show ?case
  proof (cases "m = 0")
    case True
    then show ?thesis using "1.prems" by (simp add: strip2.simps)
  next
    case False
    show ?thesis
    proof (cases "even m")
      case True
      then have s: "strip2 (m div 2) (e + 1) = (m', e')"
        using "1.prems" False by (subst (asm) strip2.simps) simp
      have ih: "real_of_int m' * 2 powi e' = real_of_int (m div 2) * 2 powi (e + 1) \<and>
                (0 \<le> m div 2 \<longrightarrow> 0 \<le> m')"
        using "1.IH" [OF False True s] .
      have "m = 2 * (m div 2)" using True by presburger
      then have "real_of_int m = 2 * real_of_int (m div 2)"
        by (metis of_int_mult of_int_numeral)
      then have "real_of_int (m div 2) * 2 powi (e + 1) = real_of_int m * 2 powi e"
        by (simp add: powi_Suc)
      moreover have "0 \<le> m \<longrightarrow> 0 \<le> m div 2" by presburger
      ultimately show ?thesis using ih by simp
    next
      case odd: False
      then show ?thesis using "1.prems" False by (subst (asm) strip2.simps) simp
    qed
  qed
qed

lemma floor_log2_bounds:
  assumes "0 < p" and "0 < q"
  shows "2 powi floor_log2 p q \<le> real_of_int p / real_of_int q"
    and "real_of_int p / real_of_int q < 2 powi (floor_log2 p q + 1)"
proof -
  define b where "b = int (bitlen p) - int (bitlen q)"
  define x where "x = real_of_int p / real_of_int q"
  have rq: "0 < real_of_int q" and rp: "0 < real_of_int p" using assms by simp_all
  have bp: "2 ^ (bitlen p - 1) \<le> p" "p < 2 ^ bitlen p" using bitlen_pos [OF assms(1)] by simp_all
  have bq: "2 ^ (bitlen q - 1) \<le> q" "q < 2 ^ bitlen q" using bitlen_pos [OF assms(2)] by simp_all
  have lp: "0 < bitlen p" using assms(1) by (subst bitlen.simps) simp
  have lq: "0 < bitlen q" using assms(2) by (subst bitlen.simps) simp
  have rbp: "(2::real) ^ bitlen p / 2 \<le> real_of_int p" "real_of_int p < 2 ^ bitlen p"
  proof -
    have "real_of_int (2 ^ (bitlen p - 1)) \<le> real_of_int p" using bp(1) by linarith
    moreover have "(2::real) ^ bitlen p = 2 * 2 ^ (bitlen p - 1)"
      using lp by (cases "bitlen p") simp_all
    ultimately show "(2::real) ^ bitlen p / 2 \<le> real_of_int p" by simp
    have "real_of_int p < real_of_int (2 ^ bitlen p)" using bp(2) by linarith
    then show "real_of_int p < 2 ^ bitlen p" by simp
  qed
  have rbq: "(2::real) ^ bitlen q / 2 \<le> real_of_int q" "real_of_int q < 2 ^ bitlen q"
  proof -
    have "real_of_int (2 ^ (bitlen q - 1)) \<le> real_of_int q" using bq(1) by linarith
    moreover have "(2::real) ^ bitlen q = 2 * 2 ^ (bitlen q - 1)"
      using lq by (cases "bitlen q") simp_all
    ultimately show "(2::real) ^ bitlen q / 2 \<le> real_of_int q" by simp
    have "real_of_int q < real_of_int (2 ^ bitlen q)" using bq(2) by linarith
    then show "real_of_int q < 2 ^ bitlen q" by simp
  qed
  have bb: "(2::real) powi b = 2 ^ bitlen p / 2 ^ bitlen q"
    by (simp add: b_def power_int_diff)
  have up: "x < 2 * 2 powi b"
  proof -
    have "real_of_int p * 2 ^ bitlen q < 2 ^ bitlen p * (2 * real_of_int q)"
    proof -
      have "real_of_int p * 2 ^ bitlen q < 2 ^ bitlen p * 2 ^ bitlen q"
        using rbp(2) by simp
      also have "\<dots> \<le> 2 ^ bitlen p * (2 * real_of_int q)"
        using rbq(1) by simp
      finally show ?thesis .
    qed
    then show ?thesis using rq by (simp add: x_def bb field_simps)
  qed
  have lo: "2 powi b / 2 < x"
  proof -
    have "2 ^ bitlen p * real_of_int q < 2 ^ bitlen p * 2 ^ bitlen q"
      using rbq(2) by simp
    also have "\<dots> \<le> (2 * real_of_int p) * 2 ^ bitlen q"
      using rbp(1) by simp
    finally show ?thesis using rq by (simp add: x_def bb field_simps)
  qed
  have cond: "(q * 2 ^ nat b \<le> p * 2 ^ nat (- b)) = (2 powi b \<le> x)"
  proof -
    have "(q * 2 ^ nat b \<le> p * 2 ^ nat (- b)) =
          (real_of_int (q * 2 ^ nat b) \<le> real_of_int (p * 2 ^ nat (- b)))"
      by linarith
    also have "\<dots> = (real_of_int q * 2 ^ nat b \<le> real_of_int p * 2 ^ nat (- b))"
      by simp
    also have "\<dots> = (2 ^ nat b / 2 ^ nat (- b) \<le> x)"
      using rq by (simp add: x_def field_simps)
    finally show ?thesis by (simp add: pow_split)
  qed
  have fl: "floor_log2 p q = (if 2 powi b \<le> x then b else b - 1)"
    using cond by (simp add: floor_log2_def Let_def b_def)
  show "2 powi floor_log2 p q \<le> real_of_int p / real_of_int q"
    using lo by (simp add: fl x_def [symmetric] powi_pred)
  show "real_of_int p / real_of_int q < 2 powi (floor_log2 p q + 1)"
    using up by (auto simp add: fl x_def [symmetric] powi_Suc powi_pred)
qed

lemma powi_less_imp_less: "(2::real) powi m < 2 powi n \<Longrightarrow> m < n"
proof (rule ccontr)
  assume a: "(2::real) powi m < 2 powi n" and "\<not> m < n"
  then have "n \<le> m" by simp
  then have "(2::real) powi n \<le> 2 powi m" by (rule power_int_increasing) simp
  then show False using a by simp
qed

lemma abs_scale:
  fixes a c x :: real
  assumes "0 < c"
  shows "\<bar>a * c - x\<bar> = \<bar>a - x / c\<bar> * c"
proof -
  have "(a - x / c) * c = a * c - x" using assms by (simp add: field_simps)
  then have "\<bar>a * c - x\<bar> = \<bar>(a - x / c) * c\<bar>" by simp
  also have "\<dots> = \<bar>a - x / c\<bar> * \<bar>c\<bar>" by (rule abs_mult)
  finally show ?thesis using assms by simp
qed

lemma mk_double_near:
  assumes p: "0 \<le> p" and q: "0 < q"
    and B: "real_of_int p / real_of_int q < 2 ^ B" "B \<le> 1000"
  shows "\<exists>m e. mk_double False p q = Finite m e \<and> 0 \<le> m \<and>
           \<bar>real_of_int m * 2 powi e - real_of_int p / real_of_int q\<bar> \<le> 2 ^ B / 2 ^ 54"
proof (cases "p = 0")
  case True
  then show ?thesis by (simp add: mk_double_def)
next
  case False
  then have p0: "0 < p" using p by simp
  define x where "x = real_of_int p / real_of_int q"
  define k where "k = floor_log2 p q"
  define u where "u = max (k - 52) (- 1074)"
  define n where "n = round_half_even (p * 2 ^ nat (- u)) (q * 2 ^ nat u)"
  have rq: "0 < real_of_int q" using q by simp
  have kx: "2 powi k \<le> x" "x < 2 powi (k + 1)"
    using floor_log2_bounds [OF p0 q] by (simp_all add: k_def x_def)
  have "(2::real) powi k < 2 powi int B" using kx(1) B(1) by (simp add: x_def)
  then have kB: "k < int B" by (rule powi_less_imp_less)
  have uB: "u \<le> int B - 53" using kB by (simp add: u_def)
  have uk: "k - 52 \<le> u" by (simp add: u_def)
  have pu: "0 < (2::real) powi u" by simp
  have scaled: "real_of_int (p * 2 ^ nat (- u)) / real_of_int (q * 2 ^ nat u) = x / 2 powi u"
  proof -
    have "real_of_int (p * 2 ^ nat (- u)) / real_of_int (q * 2 ^ nat u) =
          x * (2 ^ nat (- u) / 2 ^ nat (- (- u)))"
      by (simp add: x_def)
    also have "\<dots> = x * 2 powi (- u)" by (simp only: pow_split)
    also have "\<dots> = x / 2 powi u" by (simp add: power_int_minus field_simps)
    finally show ?thesis .
  qed
  have PQ: "0 \<le> p * 2 ^ nat (- u)" "0 < q * 2 ^ nat u" using p q by simp_all
  have "\<bar>real_of_int n - real_of_int (p * 2 ^ nat (- u)) / real_of_int (q * 2 ^ nat u)\<bar>
          \<le> 1 / 2"
    unfolding n_def by (rule round_half_even_near(1) [OF PQ])
  then have near: "\<bar>real_of_int n - x / 2 powi u\<bar> \<le> 1 / 2" by (simp only: scaled)
  have n0: "0 \<le> n" unfolding n_def by (rule round_half_even_near(2) [OF PQ])
  have err: "\<bar>real_of_int n * 2 powi u - x\<bar> \<le> 2 powi u / 2"
  proof -
    have "\<bar>real_of_int n * 2 powi u - x\<bar> = \<bar>real_of_int n - x / 2 powi u\<bar> * 2 powi u"
      using pu by (rule abs_scale)
    also have "\<dots> \<le> (1 / 2) * 2 powi u"
      using near pu by (intro mult_right_mono) simp_all
    finally show ?thesis by simp
  qed
  have ubound: "(2::real) powi u \<le> 2 ^ B / 2 ^ 53"
  proof -
    have "(2::real) powi u \<le> 2 powi (int B - 53)"
      using uB by (intro power_int_increasing) simp_all
    also have "\<dots> = 2 ^ B / 2 ^ 53" by (simp add: power_int_diff)
    finally show ?thesis .
  qed
  have nle: "n \<le> 2 ^ 53"
  proof -
    have "x / 2 powi u < 2 powi (k + 1) / 2 powi u"
      using kx(2) pu by (simp add: divide_strict_right_mono)
    also have "\<dots> = 2 powi (k + 1 - u)" by (simp add: power_int_diff)
    also have "\<dots> \<le> 2 powi 53"
      using uk by (intro power_int_increasing) simp_all
    finally have "x / 2 powi u < 2 ^ 53" by simp
    then have "real_of_int n < 2 ^ 53 + 1" using near by linarith
    then have "real_of_int n < real_of_int (2 ^ 53 + 1)" by simp
    then have "n < 2 ^ 53 + 1" by linarith
    then show ?thesis by simp
  qed
  have nofl: "\<not> 2 ^ 1024 \<le> n * 2 ^ nat u"
  proof -
    have "nat u \<le> 947" using uB B(2) by simp
    then have "(2::int) ^ nat u \<le> 2 ^ 947" by (intro power_increasing) simp_all
    then have "n * 2 ^ nat u \<le> 2 ^ 53 * 2 ^ 947"
      using nle n0 by (intro mult_mono) simp_all
    also have "\<dots> < (2::int) ^ 1024" by simp
    finally show ?thesis by simp
  qed
  obtain m e where st: "strip2 n u = (m, e)" by (cases "strip2 n u")
  have sv: "real_of_int m * 2 powi e = real_of_int n * 2 powi u" "0 \<le> m"
    using strip2_value [OF st] n0 by simp_all
  have mk: "mk_double False p q = Finite m e"
    using False nofl st by (simp add: mk_double_def Let_def k_def [symmetric] u_def [symmetric] n_def [symmetric])
  have "\<bar>real_of_int m * 2 powi e - x\<bar> \<le> 2 ^ B / 2 ^ 54"
    using err ubound by (simp add: sv(1))
  then show ?thesis using mk sv(2) by (simp add: x_def)
qed


lemma pow_nat_powi: "0 \<le> d \<Longrightarrow> (2::real) ^ nat d = 2 powi d"
  by (simp add: power_int_def)



lemma js_add_near:
  assumes "0 \<le> m1" and "0 \<le> m2"
    and "real_of_int m1 * 2 powi e1 + real_of_int m2 * 2 powi e2 < 2 ^ B" and "B \<le> 1000"
  shows "\<exists>m e. js_add (Finite m1 e1) (Finite m2 e2) = Finite m e \<and> 0 \<le> m \<and>
           \<bar>real_of_int m * 2 powi e
              - (real_of_int m1 * 2 powi e1 + real_of_int m2 * 2 powi e2)\<bar> \<le> 2 ^ B / 2 ^ 54"
proof -
  define e where "e = min e1 e2"
  define s where "s = m1 * 2 ^ nat (e1 - e) + m2 * 2 ^ nat (e2 - e)"
  have s0: "0 \<le> s" using assms(1,2) by (simp add: s_def)
  have d: "0 \<le> e1 - e" "0 \<le> e2 - e" by (simp_all add: e_def)
  have "real_of_int (s * 2 ^ nat e) / real_of_int (2 ^ nat (- e)) =
        real_of_int s * (2 ^ nat e / 2 ^ nat (- e))"
    by simp
  also have "\<dots> = real_of_int s * 2 powi e" by (simp only: pow_split)
  also have "\<dots> = real_of_int m1 * (2 powi (e1 - e) * 2 powi e)
                   + real_of_int m2 * (2 powi (e2 - e) * 2 powi e)"
    using d by (simp add: s_def pow_nat_powi algebra_simps)
  also have "\<dots> = real_of_int m1 * 2 powi e1 + real_of_int m2 * 2 powi e2"
    by (simp add: power_int_add [symmetric])
  finally have v: "real_of_int (s * 2 ^ nat e) / real_of_int (2 ^ nat (- e)) =
      real_of_int m1 * 2 powi e1 + real_of_int m2 * 2 powi e2" .
  have P: "0 \<le> s * 2 ^ nat e" using s0 by simp
  have Q: "0 < (2::int) ^ nat (- e)" by simp
  have lt: "real_of_int (s * 2 ^ nat e) / real_of_int (2 ^ nat (- e)) < 2 ^ B"
    using assms(3) by (simp only: v)
  have js: "js_add (Finite m1 e1) (Finite m2 e2) =
            mk_double False (s * 2 ^ nat e) (2 ^ nat (- e))"
    using s0 by (simp add: Let_def e_def [symmetric] s_def [symmetric])
  show ?thesis
    using mk_double_near [OF P Q lt assms(4)] unfolding js v .
qed





section \<open>The occupation rate\<close>





lemma occupation_examples:
  "occupationRate [] = Finite 0 0"
  "occupationRate (periodAppointments Conjoin plain_calendar 1500 ana None busy_salon) =
     Finite 25 1"
  "js_of_nat 50 = Finite 25 1"
  "occupationRate
     (replicate 29 (appointment1\<lparr>a_status := ''completed''\<rparr>) @ replicate 171 appointment1) =
     Finite 7 1"
  "js_of_nat 14 = Finite 7 1"
  by code_simp+


end
